theory Spec2Isabelle
  imports Complex_Main "HOL-Library.AList" "HOL-Library.Char_ord" "HOL-Library.List_Lexorder"
    "HOL-Library.Multiset"
begin

section \<open>Python values, dictionaries and strings\<close>

text \<open>
  The repository is Python. Exceptions are values of \<open>pyerror\<close>; a function that can
  raise returns \<open>pyerror + 'a\<close> with \<open>Inl\<close> for the exception.
\<close>

datatype pyerror = KeyError | IndexError | ValueError | LibraryError | BackendError

text \<open>
  A \<open>dict\<close> keeps insertion order: assigning to a present key replaces the value in
  place, assigning to an absent key appends. That is \<open>AList.update\<close> on an association
  list; lookup is \<open>map_of\<close>.
\<close>

type_synonym ('k, 'v) pydict = "('k \<times> 'v) list"

definition dict_set :: "'k \<Rightarrow> 'v \<Rightarrow> ('k, 'v) pydict \<Rightarrow> ('k, 'v) pydict" where
  "dict_set k v d = AList.update k v d"

definition dict_has :: "('k, 'v) pydict \<Rightarrow> 'k \<Rightarrow> bool" where
  "dict_has d k = (map_of d k \<noteq> None)"

text \<open>\<open>d1.update(d2)\<close>, and \<open>dict(pairs)\<close>.\<close>

definition dict_update :: "('k, 'v) pydict \<Rightarrow> ('k \<times> 'v) list \<Rightarrow> ('k, 'v) pydict" where
  "dict_update d1 d2 = foldl (\<lambda>d kv. dict_set (fst kv) (snd kv) d) d1 d2"

definition py_dict :: "('k \<times> 'v) list \<Rightarrow> ('k, 'v) pydict" where
  "py_dict ps = dict_update [] ps"

text \<open>\<open>d.get(k, default)\<close>, and \<open>d[k].append(x)\<close> on a \<open>defaultdict(list)\<close>.\<close>

definition dict_get :: "('k, 'v) pydict \<Rightarrow> 'k \<Rightarrow> 'v \<Rightarrow> 'v" where
  "dict_get d k dflt = (case map_of d k of None \<Rightarrow> dflt | Some v \<Rightarrow> v)"

definition dd_append :: "'k \<Rightarrow> 'a \<Rightarrow> ('k, 'a list) pydict \<Rightarrow> ('k, 'a list) pydict" where
  "dd_append k x d = dict_set k (dict_get d k [] @ [x]) d"

text \<open>
  A cell of a row: a string, \<open>None\<close>, or the float NaN that pandas puts in a missing
  cell. \<open>truthy\<close> is Python's truth value, \<open>py_str\<close> is \<open>str(...)\<close>, \<open>is_na\<close> is
  \<open>pd.isna\<close>.
\<close>

datatype cell = Str string | PNone | NaN

fun truthy :: "cell \<Rightarrow> bool" where
  "truthy (Str s) = (s \<noteq> [])"
| "truthy PNone = False"
| "truthy NaN = True"

fun py_str :: "cell \<Rightarrow> string" where
  "py_str (Str s) = s"
| "py_str PNone = ''None''"
| "py_str NaN = ''nan''"

fun is_na :: "cell \<Rightarrow> bool" where
  "is_na (Str s) = False"
| "is_na PNone = True"
| "is_na NaN = True"

type_synonym row = "(string, cell) pydict"

text \<open>
  Character classes over ASCII: \<open>is_space\<close> is what \<open>str.strip\<close> and the regular
  expression class \<open>\s\<close> take for white space, \<open>is_word\<close> is the class \<open>\w\<close>,
  \<open>lower_char\<close> is \<open>str.lower\<close> on one character.
\<close>

definition is_space :: "char \<Rightarrow> bool" where
  "is_space c = (c \<in> set [CHR '' '', CHR 0x09, CHR 0x0A, CHR 0x0B, CHR 0x0C, CHR 0x0D,
     CHR 0x1C, CHR 0x1D, CHR 0x1E, CHR 0x1F])"

definition upper_chars :: string where
  "upper_chars = ''ABCDEFGHIJKLMNOPQRSTUVWXYZ''"

definition lower_chars :: string where
  "lower_chars = ''abcdefghijklmnopqrstuvwxyz''"

definition is_word :: "char \<Rightarrow> bool" where
  "is_word c = (c \<in> set (upper_chars @ lower_chars @ ''0123456789_''))"

definition lower_char :: "char \<Rightarrow> char" where
  "lower_char c = (case map_of (zip upper_chars lower_chars) c of Some l \<Rightarrow> l | None \<Rightarrow> c)"

definition py_lower :: "string \<Rightarrow> string" where
  "py_lower s = map lower_char s"

definition py_strip :: "string \<Rightarrow> string" where
  "py_strip s = rev (dropWhile is_space (rev (dropWhile is_space s)))"

text \<open>\<open>re.sub(r'\s+', ' ', text)\<close>: every maximal run of white space becomes one space.\<close>

function collapse_ws :: "string \<Rightarrow> string" where
  "collapse_ws [] = []"
| "collapse_ws (c # cs) =
     (if is_space c then CHR '' '' # collapse_ws (dropWhile is_space cs)
      else c # collapse_ws cs)"
  by pat_completeness auto
termination
  by (relation "measure length") (auto simp: length_dropWhile_le less_Suc_eq_le)

text \<open>\<open>re.sub(r'[^\w\s]', '', text)\<close>.\<close>

definition remove_punct :: "string \<Rightarrow> string" where
  "remove_punct s = filter (\<lambda>c. is_word c \<or> is_space c) s"

text \<open>\<open>sep.join(parts)\<close>.\<close>

fun py_join :: "string \<Rightarrow> string list \<Rightarrow> string" where
  "py_join sep [] = []"
| "py_join sep [x] = x"
| "py_join sep (x # y # ys) = x @ sep @ py_join sep (y # ys)"


text \<open>Decimal printing of a number inside an f-string.\<close>

definition digit_char :: "nat \<Rightarrow> char" where
  "digit_char d = ''0123456789'' ! (d mod 10)"

function show_nat :: "nat \<Rightarrow> string" where
  "show_nat n = (if n < 10 then [digit_char n] else show_nat (n div 10) @ [digit_char n])"
  by pat_completeness auto
termination
  by (relation "measure id") auto

definition show_int :: "int \<Rightarrow> string" where
  "show_int i = (if i < 0 then ''-'' @ show_nat (nat (- i)) else show_nat (nat i))"

text \<open>\<open>int(x)\<close> of a float truncates towards zero.\<close>

definition py_trunc :: "real \<Rightarrow> int" where
  "py_trunc x = (if x < 0 then \<lceil>x\<rceil> else \<lfloor>x\<rfloor>)"

text \<open>
  \<open>xs.sort(key=k, reverse=True)\<close>: CPython reverses the list, sorts it stably in
  ascending order of the key and reverses the result, which keeps elements with equal
  keys in their original order.
\<close>

definition py_sort_reverse :: "('a \<Rightarrow> 'k::linorder) \<Rightarrow> 'a list \<Rightarrow> 'a list" where
  "py_sort_reverse k xs = rev (sort_key k (rev xs))"

section \<open>config.py\<close>

definition DUPLICATE_CHECK_FIELDS :: "string list" where
  "DUPLICATE_CHECK_FIELDS = [''Document ID'', ''Source URL'']"

definition DUPLICATE_DETECTION_METHOD :: string where
  "DUPLICATE_DETECTION_METHOD = ''exact''"

definition FUZZY_MATCH_THRESHOLD :: nat where
  "FUZZY_MATCH_THRESHOLD = 85"

definition ENABLE_FUZZY_TITLE_MATCHING :: bool where
  "ENABLE_FUZZY_TITLE_MATCHING = True"

definition TITLE_SIMILARITY_THRESHOLD :: nat where
  "TITLE_SIMILARITY_THRESHOLD = 80"

definition ENABLE_CONTENT_HASH :: bool where
  "ENABLE_CONTENT_HASH = True"

definition CONTENT_FIELDS_FOR_HASH :: "string list" where
  "CONTENT_FIELDS_FOR_HASH = [''Summary'', ''Tags'']"



section \<open>The libraries\<close>

text \<open>
  What the code takes from outside the repository is a parameter of the model:
  \<^item> \<open>fuzz_ratio\<close> is \<open>fuzz.ratio\<close> of fuzzywuzzy and \<open>md5_hexdigest\<close> is
    \<open>hashlib.md5(s.encode('utf-8')).hexdigest()\<close>; either may raise (the encoding does
    on a lone surrogate), so they return a sum;
  \<^item> \<open>py_float\<close> and \<open>py_int\<close> are the builtins \<open>float(s)\<close> and \<open>int(s)\<close> on a
    string, \<open>None\<close> where they raise \<open>ValueError\<close>;
  \<^item> \<open>thumbnail_hashes\<close> downloads a thumbnail and computes its perceptual hashes
    (requests, PIL, imagehash): \<open>None\<close> when the download or the decoding fails;
  \<^item> \<open>fuzzy_available\<close> is the module flag \<open>FUZZY_AVAILABLE\<close>, set by the import.
\<close>

record pylib =
  fuzz_ratio :: "string \<Rightarrow> string \<Rightarrow> pyerror + nat"
  md5_hexdigest :: "string \<Rightarrow> pyerror + string"
  py_float :: "string \<Rightarrow> real option"
  py_int :: "string \<Rightarrow> int option"
  thumbnail_hashes :: "string \<Rightarrow> (string, string) pydict option"
  fuzzy_available :: bool

section \<open>duplicate\_detector.py: class DuplicateDetector\<close>

text \<open>The attributes of a detector; \<open>det_method\<close> is \<open>self.method\<close>.\<close>

record detector =
  check_fields :: "string list"
  det_method :: string
  threshold :: nat

text \<open>\<open>__init__\<close>: each argument falls back to the configuration when it is falsy.\<close>

definition new_detector :: "string list option \<Rightarrow> string option \<Rightarrow> nat option \<Rightarrow> detector" where
  "new_detector cf m t =
     \<lparr> check_fields = (case cf of Some (f # fs) \<Rightarrow> f # fs | _ \<Rightarrow> DUPLICATE_CHECK_FIELDS),
       det_method = (case m of Some (c # cs) \<Rightarrow> c # cs | _ \<Rightarrow> DUPLICATE_DETECTION_METHOD),
       threshold = (case t of Some (Suc n) \<Rightarrow> Suc n | _ \<Rightarrow> FUZZY_MATCH_THRESHOLD) \<rparr>"

definition normalize_text :: "cell \<Rightarrow> string" where
  "normalize_text text =
     (if \<not> truthy text \<or> is_na text then []
      else remove_punct (collapse_ws (py_lower (py_strip (py_str text)))))"

text \<open>The loop of \<open>generate_content_hash\<close> that collects \<open>content_parts\<close>.\<close>

fun content_parts :: "row \<Rightarrow> string list \<Rightarrow> string list" where
  "content_parts row_data [] = []"
| "content_parts row_data (field # flds) =
     (case map_of row_data field of
        None \<Rightarrow> content_parts row_data flds
      | Some v \<Rightarrow>
          if truthy v \<and> normalize_text v \<noteq> []
          then normalize_text v # content_parts row_data flds
          else content_parts row_data flds)"

definition generate_content_hash ::
  "pylib \<Rightarrow> row \<Rightarrow> string list option \<Rightarrow> pyerror + string option" where
  "generate_content_hash lib row_data fields_arg =
     (let fs = (case fields_arg of None \<Rightarrow> CONTENT_FIELDS_FOR_HASH | Some f \<Rightarrow> f);
          parts = content_parts row_data fs
      in if parts \<noteq> []
         then (case md5_hexdigest lib (py_join ''|'' (sort parts)) of
                 Inl e \<Rightarrow> Inl e
               | Inr h \<Rightarrow> Inr (Some h))
         else Inr None)"

fun key_parts :: "row \<Rightarrow> string list \<Rightarrow> string list" where
  "key_parts row_data [] = []"
| "key_parts row_data (field # flds) =
     (case map_of row_data field of
        None \<Rightarrow> key_parts row_data flds
      | Some v \<Rightarrow>
          if truthy v \<and> normalize_text v \<noteq> []
          then (field @ '':'' @ normalize_text v) # key_parts row_data flds
          else key_parts row_data flds)"

definition generate_record_key :: "detector \<Rightarrow> row \<Rightarrow> string option" where
  "generate_record_key d row_data =
     (let kp = key_parts row_data (check_fields d)
      in if kp \<noteq> [] then Some (py_join ''|'' kp) else None)"

text \<open>
  \<open>existing_data\<close> is a pandas DataFrame: its column labels and its rows, each with its
  index label. \<open>df.empty\<close> holds when either axis has length 0; \<open>iterrows()\<close> yields
  the rows in order; \<open>row.to_dict()\<close> pairs the labels with the values.
\<close>

record dataframe =
  columns :: "string list"
  rows :: "(nat \<times> cell list) list"

definition df_empty :: "dataframe \<Rightarrow> bool" where
  "df_empty df = (columns df = [] \<or> rows df = [])"

definition to_dict :: "dataframe \<Rightarrow> cell list \<Rightarrow> row" where
  "to_dict df vals = py_dict (zip (columns df) vals)"

record match_info =
  match_type :: string
  match_score :: nat
  matched_row_index :: nat
  matched_fields :: "string list"
  match_details :: string

type_synonym match_result = "bool \<times> match_info option"

text \<open>A key that is \<open>None\<close> or the empty string is falsy.\<close>

definition falsy_key :: "string option \<Rightarrow> bool" where
  "falsy_key k = (k = None \<or> k = Some [])"

fun exact_loop :: "detector \<Rightarrow> dataframe \<Rightarrow> string \<Rightarrow> (nat \<times> cell list) list \<Rightarrow> match_result" where
  "exact_loop d df new_key [] = (False, None)"
| "exact_loop d df new_key ((idx, vals) # rest) =
     (if generate_record_key d (to_dict df vals) = Some new_key
      then (True, Some \<lparr> match_type = ''exact'', match_score = 100, matched_row_index = idx,
                         matched_fields = check_fields d,
                         match_details = ''Exact match on key: '' @ new_key \<rparr>)
      else exact_loop d df new_key rest)"

definition exact_match :: "pylib \<Rightarrow> detector \<Rightarrow> row \<Rightarrow> dataframe \<Rightarrow> pyerror + match_result" where
  "exact_match lib d new_row existing_data =
     (let new_key = generate_record_key d new_row
      in if falsy_key new_key then Inr (False, None)
         else Inr (exact_loop d existing_data (the new_key) (rows existing_data)))"

text \<open>
  The loop state of \<open>fuzzy_match\<close> and \<open>title_similarity_match\<close>:
  \<open>(best_match, best_score, best_index)\<close>, with \<open>best_index\<close> meaningful only once
  \<open>best_match\<close> is set.
\<close>

type_synonym best = "row option \<times> nat \<times> nat"

fun fuzzy_loop ::
  "pylib \<Rightarrow> detector \<Rightarrow> dataframe \<Rightarrow> string \<Rightarrow> best \<Rightarrow> (nat \<times> cell list) list \<Rightarrow> pyerror + best" where
  "fuzzy_loop lib d df new_key b [] = Inr b"
| "fuzzy_loop lib d df new_key (bm, bs, bi) ((idx, vals) # rest) =
     (let existing_key = generate_record_key d (to_dict df vals)
      in if falsy_key existing_key then fuzzy_loop lib d df new_key (bm, bs, bi) rest
         else (case fuzz_ratio lib new_key (the existing_key) of
                 Inl e \<Rightarrow> Inl e
               | Inr score \<Rightarrow>
                   if score > bs \<and> score \<ge> threshold d
                   then fuzzy_loop lib d df new_key (Some (to_dict df vals), score, idx) rest
                   else fuzzy_loop lib d df new_key (bm, bs, bi) rest))"

text \<open>\<open>if best_match:\<close> is the truth value of a dict: set and not empty.\<close>

definition best_set :: "best \<Rightarrow> bool" where
  "best_set b = (case fst b of None \<Rightarrow> False | Some r \<Rightarrow> r \<noteq> [])"

definition fuzzy_match :: "pylib \<Rightarrow> detector \<Rightarrow> row \<Rightarrow> dataframe \<Rightarrow> pyerror + match_result" where
  "fuzzy_match lib d new_row existing_data =
     (let new_key = generate_record_key d new_row
      in if falsy_key new_key then Inr (False, None)
         else (case fuzzy_loop lib d existing_data (the new_key) (None, 0, 0) (rows existing_data) of
                 Inl e \<Rightarrow> Inl e
               | Inr b \<Rightarrow>
                   if best_set b
                   then Inr (True, Some \<lparr> match_type = ''fuzzy'', match_score = fst (snd b),
                          matched_row_index = snd (snd b), matched_fields = check_fields d,
                          match_details = ''Fuzzy match (score: '' @ show_nat (fst (snd b))
                            @ ''%) on key fields'' \<rparr>)
                   else Inr (False, None)))"

definition title_field :: string where
  "title_field = ''Document Title''"

text \<open>The cell of a column in a row; \<open>PNone\<close> stands in only where the key is absent
  and the caller has checked for that.\<close>

definition cell_of :: "row \<Rightarrow> string \<Rightarrow> cell" where
  "cell_of r k = (case map_of r k of None \<Rightarrow> PNone | Some v \<Rightarrow> v)"

fun title_loop ::
  "pylib \<Rightarrow> dataframe \<Rightarrow> string \<Rightarrow> best \<Rightarrow> (nat \<times> cell list) list \<Rightarrow> pyerror + best" where
  "title_loop lib df new_title b [] = Inr b"
| "title_loop lib df new_title (bm, bs, bi) ((idx, vals) # rest) =
     (let existing_row = to_dict df vals
      in if \<not> dict_has existing_row title_field \<or> \<not> truthy (cell_of existing_row title_field)
         then title_loop lib df new_title (bm, bs, bi) rest
         else let existing_title = normalize_text (cell_of existing_row title_field)
              in if existing_title = [] then title_loop lib df new_title (bm, bs, bi) rest
                 else (case fuzz_ratio lib new_title existing_title of
                         Inl e \<Rightarrow> Inl e
                       | Inr score \<Rightarrow>
                           if score > bs \<and> score \<ge> TITLE_SIMILARITY_THRESHOLD
                           then title_loop lib df new_title (Some existing_row, score, idx) rest
                           else title_loop lib df new_title (bm, bs, bi) rest))"

definition title_similarity_match ::
  "pylib \<Rightarrow> detector \<Rightarrow> row \<Rightarrow> dataframe \<Rightarrow> pyerror + match_result" where
  "title_similarity_match lib d new_row existing_data =
     (if \<not> ENABLE_FUZZY_TITLE_MATCHING then Inr (False, None)
      else if \<not> dict_has new_row title_field \<or> \<not> truthy (cell_of new_row title_field)
      then Inr (False, None)
      else let new_title = normalize_text (cell_of new_row title_field)
           in if new_title = [] then Inr (False, None)
              else (case title_loop lib existing_data new_title (None, 0, 0) (rows existing_data) of
                      Inl e \<Rightarrow> Inl e
                    | Inr b \<Rightarrow>
                        if best_set b
                        then Inr (True, Some \<lparr> match_type = ''title_similarity'',
                               match_score = fst (snd b), matched_row_index = snd (snd b),
                               matched_fields = [title_field],
                               match_details = ''Similar title (score: '' @ show_nat (fst (snd b))
                                 @ ''%): '' @ [CHR 0x27] @ new_title @ [CHR 0x27] @ '' vs ''
                                 @ [CHR 0x27]
                                 @ normalize_text (cell_of (the (fst b)) title_field)
                                 @ [CHR 0x27] \<rparr>)
                        else Inr (False, None)))"

fun hash_loop ::
  "pylib \<Rightarrow> dataframe \<Rightarrow> string \<Rightarrow> (nat \<times> cell list) list \<Rightarrow> pyerror + match_result" where
  "hash_loop lib df new_hash [] = Inr (False, None)"
| "hash_loop lib df new_hash ((idx, vals) # rest) =
     (case generate_content_hash lib (to_dict df vals) None of
        Inl e \<Rightarrow> Inl e
      | Inr existing_hash \<Rightarrow>
          if existing_hash = Some new_hash
          then Inr (True, Some \<lparr> match_type = ''content_hash'', match_score = 100,
                 matched_row_index = idx, matched_fields = CONTENT_FIELDS_FOR_HASH,
                 match_details = ''Content hash match: '' @ new_hash \<rparr>)
          else hash_loop lib df new_hash rest)"

definition content_hash_match ::
  "pylib \<Rightarrow> detector \<Rightarrow> row \<Rightarrow> dataframe \<Rightarrow> pyerror + match_result" where
  "content_hash_match lib d new_row existing_data =
     (if \<not> ENABLE_CONTENT_HASH then Inr (False, None)
      else (case generate_content_hash lib new_row None of
              Inl e \<Rightarrow> Inl e
            | Inr new_hash \<Rightarrow>
                if falsy_key new_hash then Inr (False, None)
                else hash_loop lib existing_data (the new_hash) (rows existing_data)))"

text \<open>
  The \<open>for strategy in strategies\<close> loop of the method \<open>"multi"\<close>: a strategy that
  raises is skipped (\<open>except Exception: continue\<close>), the first one that reports a
  duplicate ends the loop.
\<close>

type_synonym strategy = "pylib \<Rightarrow> detector \<Rightarrow> row \<Rightarrow> dataframe \<Rightarrow> pyerror + match_result"

fun try_strategies ::
  "strategy list \<Rightarrow> pylib \<Rightarrow> detector \<Rightarrow> row \<Rightarrow> dataframe \<Rightarrow> match_result" where
  "try_strategies [] lib d new_row df = (False, None)"
| "try_strategies (s # ss) lib d new_row df =
     (case s lib d new_row df of
        Inl e \<Rightarrow> try_strategies ss lib d new_row df
      | Inr (is_dup, info) \<Rightarrow>
          if is_dup then (is_dup, info) else try_strategies ss lib d new_row df)"

definition multi_strategies :: "strategy list" where
  "multi_strategies = [exact_match, fuzzy_match, title_similarity_match, content_hash_match]"

text \<open>\<open>new_row\<close> is a dict, or a list of values in column order.\<close>

datatype new_row = RowDict row | RowList "cell list"

text \<open>\<open>dict(zip(existing_data.columns, new_row))\<close> for a list.\<close>

definition as_row :: "dataframe \<Rightarrow> new_row \<Rightarrow> row" where
  "as_row df new = (case new of RowList vs \<Rightarrow> py_dict (zip (columns df) vs) | RowDict r \<Rightarrow> r)"

definition check_for_duplicate ::
  "pylib \<Rightarrow> detector \<Rightarrow> new_row \<Rightarrow> dataframe option \<Rightarrow> pyerror + match_result" where
  "check_for_duplicate lib d new existing_data =
     (case existing_data of
        None \<Rightarrow> Inr (False, None)
      | Some df \<Rightarrow>
          if df_empty df then Inr (False, None)
          else let new_row = as_row df new
               in if det_method d = ''exact'' then exact_match lib d new_row df
                  else if det_method d = ''fuzzy''
                  then (case fuzzy_match lib d new_row df of
                          Inl e \<Rightarrow> Inl e
                        | Inr (is_dup, info) \<Rightarrow>
                            if is_dup then Inr (is_dup, info)
                            else title_similarity_match lib d new_row df)
                  else if det_method d = ''hash'' then content_hash_match lib d new_row df
                  else if det_method d = ''multi''
                  then Inr (try_strategies multi_strategies lib d new_row df)
                  else exact_match lib d new_row df)"



section \<open>advanced\_duplicate\_detector.py: class AdvancedDuplicateDetector\<close>

text \<open>
  A file is the metadata dict the scan produced. Its values are strings, as the Drive
  API returns them; a key that is absent is \<open>None\<close>. \<open>fid\<close>, \<open>fname\<close> and \<open>fsize\<close> are the
  keys \<open>'id'\<close>, \<open>'name'\<close> and \<open>'size'\<close>.
\<close>

record file_data =
  fid :: "string option"
  fname :: "string option"
  fsize :: "string option"
  file_category :: "string option"
  sha256Checksum :: "string option"
  sha1Checksum :: "string option"
  md5Checksum :: "string option"
  content_hash :: "string option"
  thumbnailLink :: "string option"

text \<open>
  A duplicate group is the dict a strategy builds. Every strategy sets \<open>'type'\<close>
  (\<open>group_type\<close>), \<open>'confidence'\<close>, \<open>'files'\<close>, \<open>'duplicate_count'\<close> and
  \<open>'detection_method'\<close>; the other keys are set by some strategies only.
\<close>

record dup_group =
  group_type :: string
  confidence :: string
  files :: "file_data list"
  duplicate_count :: nat
  detection_method :: string
  potential_savings_mb :: "real option"
  category :: "string option"
  group_content_hash :: "string option"
  similarity_threshold :: "nat option"
  file_size_mb :: "real option"
  avg_hash_distance :: "real option"
  categories :: "string list option"

type_synonym dups = "(string, dup_group) pydict"

definition mk_group ::
  "string \<Rightarrow> string \<Rightarrow> file_data list \<Rightarrow> string \<Rightarrow> real option \<Rightarrow> dup_group" where
  "mk_group ty conf fs meth savings =
     \<lparr> group_type = ty, confidence = conf, files = fs, duplicate_count = length fs,
       detection_method = meth, potential_savings_mb = savings, category = None,
       group_content_hash = None, similarity_threshold = None, file_size_mb = None,
       avg_hash_distance = None, categories = None \<rparr>"

text \<open>The configuration dict, with the keys the code reads, and its defaults.\<close>

record config =
  name_similarity_threshold :: nat
  fuzzy_match_threshold :: nat
  size_variance_threshold :: real
  image_hash_threshold :: nat
  min_file_size_mb :: real
  enable_image_analysis :: bool
  enable_content_analysis :: bool


definition MB :: real where
  "MB = 1024 * 1024"

text \<open>\<open>float(f.get('size', 0))\<close> and the sum of it over a list of files.\<close>

definition size_as_float :: "pylib \<Rightarrow> file_data \<Rightarrow> pyerror + real" where
  "size_as_float lib f =
     (case fsize f of
        None \<Rightarrow> Inr 0
      | Some s \<Rightarrow> (case py_float lib s of None \<Rightarrow> Inl ValueError | Some r \<Rightarrow> Inr r))"

fun total_size :: "pylib \<Rightarrow> file_data list \<Rightarrow> pyerror + real" where
  "total_size lib [] = Inr 0"
| "total_size lib (f # fs) =
     (case size_as_float lib f of
        Inl e \<Rightarrow> Inl e
      | Inr s \<Rightarrow> (case total_size lib fs of Inl e \<Rightarrow> Inl e | Inr t \<Rightarrow> Inr (s + t)))"

text \<open>\<open>f.get('name', '').lower()\<close>.\<close>

definition lower_name :: "file_data \<Rightarrow> string" where
  "lower_name f = py_lower (case fname f of None \<Rightarrow> [] | Some n \<Rightarrow> n)"

definition group_files_by_category :: "file_data list \<Rightarrow> (string, file_data list) pydict" where
  "group_files_by_category fs =
     foldl (\<lambda>groups f.
              dd_append (case file_category f of None \<Rightarrow> ''other'' | Some c \<Rightarrow> c) f groups)
       [] fs"

subsection \<open>Exact hash matches\<close>

text \<open>The first truthy value among the four checksum keys.\<close>

definition first_hash :: "file_data \<Rightarrow> string option" where
  "first_hash f =
     (case filter (\<lambda>h. h \<noteq> None \<and> h \<noteq> Some [])
             [sha256Checksum f, sha1Checksum f, md5Checksum f, content_hash f] of
        [] \<Rightarrow> None
      | h # _ \<Rightarrow> h)"

definition hash_groups :: "file_data list \<Rightarrow> (string, file_data list) pydict" where
  "hash_groups fs =
     foldl (\<lambda>groups f. case first_hash f of None \<Rightarrow> groups | Some h \<Rightarrow> dd_append h f groups)
       [] fs"

fun hash_dups :: "pylib \<Rightarrow> (string \<times> file_data list) list \<Rightarrow> dups \<Rightarrow> pyerror + dups" where
  "hash_dups lib [] duplicates = Inr duplicates"
| "hash_dups lib ((h, grp) # rest) duplicates =
     (if length grp > 1
      then (case total_size lib grp of
              Inl e \<Rightarrow> Inl e
            | Inr ts \<Rightarrow>
                hash_dups lib rest
                  (dict_set (''hash_'' @ take 8 h)
                     ((mk_group ''exact_content'' ''high'' grp ''content_hash''
                         (Some (ts * (real (length grp) - 1) / MB)))
                        \<lparr> group_content_hash := Some h \<rparr>)
                     duplicates))
      else hash_dups lib rest duplicates)"

definition find_exact_hash_matches :: "pylib \<Rightarrow> file_data list \<Rightarrow> pyerror + dups" where
  "find_exact_hash_matches lib fs = hash_dups lib (hash_groups fs) []"

subsection \<open>Fuzzy name matches\<close>

text \<open>
  The inner loop over \<open>files[i+1:]\<close> carries \<open>(similar_files, processed_files)\<close>;
  \<open>file2['id']\<close> raises \<open>KeyError\<close> on a file without an id.
\<close>

fun fuzzy_inner ::
  "pylib \<Rightarrow> nat \<Rightarrow> string \<Rightarrow> file_data list \<Rightarrow> file_data list \<times> string set
     \<Rightarrow> pyerror + file_data list \<times> string set" where
  "fuzzy_inner lib thr name1 [] st = Inr st"
| "fuzzy_inner lib thr name1 (file2 # rest) (similar, processed) =
     (case fid file2 of
        None \<Rightarrow> Inl KeyError
      | Some id2 \<Rightarrow>
          if id2 \<in> processed then fuzzy_inner lib thr name1 rest (similar, processed)
          else if lower_name file2 = [] then fuzzy_inner lib thr name1 rest (similar, processed)
          else (case fuzz_ratio lib name1 (lower_name file2) of
                  Inl e \<Rightarrow> Inl e
                | Inr similarity \<Rightarrow>
                    if similarity \<ge> thr
                    then fuzzy_inner lib thr name1 rest (similar @ [file2], insert id2 processed)
                    else fuzzy_inner lib thr name1 rest (similar, processed)))"

fun fuzzy_outer ::
  "pylib \<Rightarrow> nat \<Rightarrow> file_data list \<Rightarrow> string set \<times> dups \<Rightarrow> pyerror + dups" where
  "fuzzy_outer lib thr [] (processed, duplicates) = Inr duplicates"
| "fuzzy_outer lib thr (file1 # rest) (processed, duplicates) =
     (case fid file1 of
        None \<Rightarrow> Inl KeyError
      | Some id1 \<Rightarrow>
          if id1 \<in> processed then fuzzy_outer lib thr rest (processed, duplicates)
          else if lower_name file1 = [] then fuzzy_outer lib thr rest (processed, duplicates)
          else (case fuzzy_inner lib thr (lower_name file1) rest ([file1], processed) of
                  Inl e \<Rightarrow> Inl e
                | Inr (similar, processed') \<Rightarrow>
                    if length similar > 1
                    then (case total_size lib similar of
                            Inl e \<Rightarrow> Inl e
                          | Inr ts \<Rightarrow>
                              (case md5_hexdigest lib (lower_name file1) of
                                 Inl e \<Rightarrow> Inl e
                               | Inr h \<Rightarrow>
                                   fuzzy_outer lib thr rest
                                     (insert id1 processed',
                                      dict_set (''fuzzy_'' @ take 8 h)
                                        ((mk_group ''fuzzy_name'' ''medium'' similar
                                            ''fuzzy_name_matching''
                                            (Some (ts * (real (length similar) - 1) / MB)))
                                           \<lparr> similarity_threshold := Some thr \<rparr>)
                                        duplicates)))
                    else fuzzy_outer lib thr rest (insert id1 processed', duplicates)))"

text \<open>\<open>threshold = threshold or self.config['fuzzy_match_threshold']\<close>.\<close>

definition find_fuzzy_name_matches ::
  "pylib \<Rightarrow> config \<Rightarrow> file_data list \<Rightarrow> nat option \<Rightarrow> pyerror + dups" where
  "find_fuzzy_name_matches lib cfg fs thr_arg =
     (if \<not> fuzzy_available lib then Inr []
      else fuzzy_outer lib
             (case thr_arg of Some (Suc n) \<Rightarrow> Suc n | _ \<Rightarrow> fuzzy_match_threshold cfg)
             fs ({}, []))"

subsection \<open>Size based matches\<close>

definition size_groups :: "file_data list \<Rightarrow> (string, file_data list) pydict" where
  "size_groups fs =
     foldl (\<lambda>groups f.
              let sz = (case fsize f of None \<Rightarrow> ''0'' | Some s \<Rightarrow> s)
              in if sz \<noteq> [] \<and> sz \<noteq> ''0'' then dd_append sz f groups else groups)
       [] fs"

fun size_dups ::
  "pylib \<Rightarrow> bool \<Rightarrow> (string \<times> file_data list) list \<Rightarrow> dups \<Rightarrow> pyerror + dups" where
  "size_dups lib strict [] duplicates = Inr duplicates"
| "size_dups lib strict ((sz, grp) # rest) duplicates =
     (if length grp > 1
      then (case py_int lib sz of
              None \<Rightarrow> Inl ValueError
            | Some n \<Rightarrow>
                if real_of_int n / MB > 1
                then size_dups lib strict rest
                       (dict_set (''size_'' @ sz)
                          ((mk_group ''exact_size'' (if \<not> strict then ''low'' else ''medium'')
                              grp ''size_matching''
                              (Some (real_of_int (n * int (length grp))
                                       * (real (length grp) - 1) / MB)))
                             \<lparr> file_size_mb := Some (real_of_int n / MB) \<rparr>)
                          duplicates)
                else size_dups lib strict rest duplicates)
      else size_dups lib strict rest duplicates)"

definition find_size_based_matches :: "pylib \<Rightarrow> file_data list \<Rightarrow> bool \<Rightarrow> pyerror + dups" where
  "find_size_based_matches lib fs strict = size_dups lib strict (size_groups fs) []"

subsection \<open>Name and size similarity\<close>

definition size_diff :: "real \<Rightarrow> real \<Rightarrow> real" where
  "size_diff size1 size2 =
     (if max size1 size2 > 0 then \<bar>size1 - size2\<bar> / max size1 size2 else 1)"

fun namesize_inner ::
  "pylib \<Rightarrow> config \<Rightarrow> string \<Rightarrow> real \<Rightarrow> file_data list \<Rightarrow> file_data list \<times> string set
     \<Rightarrow> pyerror + file_data list \<times> string set" where
  "namesize_inner lib cfg name1 size1 [] st = Inr st"
| "namesize_inner lib cfg name1 size1 (file2 # rest) (similar, processed) =
     (case fid file2 of
        None \<Rightarrow> Inl KeyError
      | Some id2 \<Rightarrow>
          if id2 \<in> processed then namesize_inner lib cfg name1 size1 rest (similar, processed)
          else (case size_as_float lib file2 of
                  Inl e \<Rightarrow> Inl e
                | Inr size2 \<Rightarrow>
                    if lower_name file2 = [] \<or> size2 = 0
                    then namesize_inner lib cfg name1 size1 rest (similar, processed)
                    else (case fuzz_ratio lib name1 (lower_name file2) of
                            Inl e \<Rightarrow> Inl e
                          | Inr name_similarity \<Rightarrow>
                              if name_similarity \<ge> name_similarity_threshold cfg
                                 \<and> size_diff size1 size2 \<le> size_variance_threshold cfg
                              then namesize_inner lib cfg name1 size1 rest
                                     (similar @ [file2], insert id2 processed)
                              else namesize_inner lib cfg name1 size1 rest
                                     (similar, processed))))"

fun namesize_outer ::
  "pylib \<Rightarrow> config \<Rightarrow> file_data list \<Rightarrow> string set \<times> dups \<Rightarrow> pyerror + dups" where
  "namesize_outer lib cfg [] (processed, duplicates) = Inr duplicates"
| "namesize_outer lib cfg (file1 # rest) (processed, duplicates) =
     (case fid file1 of
        None \<Rightarrow> Inl KeyError
      | Some id1 \<Rightarrow>
          if id1 \<in> processed then namesize_outer lib cfg rest (processed, duplicates)
          else (case size_as_float lib file1 of
                  Inl e \<Rightarrow> Inl e
                | Inr size1 \<Rightarrow>
                    if lower_name file1 = [] \<or> size1 = 0
                    then namesize_outer lib cfg rest (processed, duplicates)
                    else (case namesize_inner lib cfg (lower_name file1) size1 rest
                                 ([file1], processed) of
                            Inl e \<Rightarrow> Inl e
                          | Inr (similar, processed') \<Rightarrow>
                              if length similar > 1
                              then (case total_size lib similar of
                                      Inl e \<Rightarrow> Inl e
                                    | Inr ts \<Rightarrow>
                                        (case md5_hexdigest lib
                                                (lower_name file1 @ show_int (py_trunc size1)) of
                                           Inl e \<Rightarrow> Inl e
                                         | Inr h \<Rightarrow>
                                             namesize_outer lib cfg rest
                                               (insert id1 processed',
                                                dict_set (''namesize_'' @ take 8 h)
                                                  (mk_group ''name_size_similarity'' ''medium''
                                                     similar ''name_size_similarity''
                                                     (Some (ts * (real (length similar) - 1) / MB)))
                                                  duplicates)))
                              else namesize_outer lib cfg rest
                                     (insert id1 processed', duplicates))))"

definition find_name_size_similarity_matches ::
  "pylib \<Rightarrow> config \<Rightarrow> file_data list \<Rightarrow> pyerror + dups" where
  "find_name_size_similarity_matches lib cfg fs =
     (if \<not> fuzzy_available lib then find_size_based_matches lib fs False
      else namesize_outer lib cfg fs ({}, []))"

definition find_content_similarity_matches :: "file_data list \<Rightarrow> dups" where
  "find_content_similarity_matches fs = []"

subsection \<open>Perceptual image duplicates\<close>

text \<open>\<open>Levenshtein.hamming\<close>: the number of differing positions; strings of different
  lengths raise \<open>ValueError\<close>.\<close>

definition hamming :: "string \<Rightarrow> string \<Rightarrow> pyerror + nat" where
  "hamming a b =
     (if length a \<noteq> length b then Inl ValueError
      else Inr (length (filter (\<lambda>p. fst p \<noteq> snd p) (zip a b))))"

definition hash_types :: "string list" where
  "hash_types = [''phash'', ''ahash'', ''dhash'', ''whash'']"

text \<open>An entry of \<open>image_hashes\<close>: \<open>{'file_data': ..., 'hashes': ...}\<close>.\<close>

type_synonym image_entry = "file_data \<times> (string, string) pydict"

text \<open>
  The first loop: a file without a thumbnail link is skipped, and so is one whose
  thumbnail cannot be fetched or that has no id (the \<open>KeyError\<close> is raised inside the
  \<open>try\<close>).
\<close>

definition collect_image_hashes :: "pylib \<Rightarrow> file_data list \<Rightarrow> (string, image_entry) pydict" where
  "collect_image_hashes lib fs =
     foldl (\<lambda>image_hashes f.
              case thumbnailLink f of
                None \<Rightarrow> image_hashes
              | Some link \<Rightarrow>
                  if link = [] then image_hashes
                  else (case thumbnail_hashes lib link of
                          None \<Rightarrow> image_hashes
                        | Some hashes \<Rightarrow>
                            (case fid f of
                               None \<Rightarrow> image_hashes
                             | Some i \<Rightarrow> dict_set i (f, hashes) image_hashes)))
       [] fs"

fun hash_distances ::
  "(string, string) pydict \<Rightarrow> (string, string) pydict \<Rightarrow> string list \<Rightarrow> pyerror + nat list" where
  "hash_distances h1 h2 [] = Inr []"
| "hash_distances h1 h2 (t # ts) =
     (case (map_of h1 t, map_of h2 t) of
        (Some a, Some b) \<Rightarrow>
          (case hamming a b of
             Inl e \<Rightarrow> Inl e
           | Inr dst \<Rightarrow>
               (case hash_distances h1 h2 ts of Inl e \<Rightarrow> Inl e | Inr ds \<Rightarrow> Inr (dst # ds)))
      | _ \<Rightarrow> hash_distances h1 h2 ts)"

text \<open>\<open>if hash_distances: avg_distance = sum / len; if avg_distance <= threshold\<close>.\<close>

definition avg_within :: "nat \<Rightarrow> nat list \<Rightarrow> bool" where
  "avg_within thr ds = (ds \<noteq> [] \<and> real (sum_list ds) / real (length ds) \<le> real thr)"

text \<open>
  The inner loop runs over all of \<open>image_hashes\<close> and carries
  \<open>(similar_files, processed_ids, hash_distances)\<close>, the last being the distances of
  the latest pair compared.
\<close>

fun perceptual_inner ::
  "nat \<Rightarrow> string \<Rightarrow> image_entry \<Rightarrow> (string \<times> image_entry) list
     \<Rightarrow> file_data list \<times> string set \<times> nat list
     \<Rightarrow> pyerror + file_data list \<times> string set \<times> nat list" where
  "perceptual_inner thr id1 data1 [] st = Inr st"
| "perceptual_inner thr id1 data1 ((id2, data2) # rest) (similar, processed, last_ds) =
     (if id2 = id1 \<or> id2 \<in> processed
      then perceptual_inner thr id1 data1 rest (similar, processed, last_ds)
      else (case hash_distances (snd data1) (snd data2) hash_types of
              Inl e \<Rightarrow> Inl e
            | Inr ds \<Rightarrow>
                if avg_within thr ds
                then perceptual_inner thr id1 data1 rest
                       (similar @ [fst data2], insert id2 processed, ds)
                else perceptual_inner thr id1 data1 rest (similar, processed, ds)))"

fun perceptual_outer ::
  "pylib \<Rightarrow> nat \<Rightarrow> (string \<times> image_entry) list \<Rightarrow> (string \<times> image_entry) list
     \<Rightarrow> string set \<times> dups \<Rightarrow> pyerror + dups" where
  "perceptual_outer lib thr image_hashes [] (processed, duplicates) = Inr duplicates"
| "perceptual_outer lib thr image_hashes ((id1, data1) # rest) (processed, duplicates) =
     (if id1 \<in> processed then perceptual_outer lib thr image_hashes rest (processed, duplicates)
      else (case perceptual_inner thr id1 data1 image_hashes ([fst data1], processed, []) of
              Inl e \<Rightarrow> Inl e
            | Inr (similar, processed', last_ds) \<Rightarrow>
                if length similar > 1
                then (case md5_hexdigest lib id1 of
                        Inl e \<Rightarrow> Inl e
                      | Inr h \<Rightarrow>
                          perceptual_outer lib thr image_hashes rest
                            (insert id1 processed',
                             dict_set (''perceptual_'' @ take 8 h)
                               ((mk_group ''perceptual_image'' ''high'' similar
                                   ''perceptual_hashing'' None)
                                  \<lparr> avg_hash_distance :=
                                      Some (if last_ds \<noteq> []
                                            then real (sum_list last_ds) / real (length last_ds)
                                            else 0) \<rparr>)
                               duplicates))
                else perceptual_outer lib thr image_hashes rest
                       (insert id1 processed', duplicates)))"

definition find_perceptual_image_duplicates ::
  "pylib \<Rightarrow> config \<Rightarrow> file_data list \<Rightarrow> pyerror + dups" where
  "find_perceptual_image_duplicates lib cfg fs =
     (let image_hashes = collect_image_hashes lib fs
      in perceptual_outer lib (image_hash_threshold cfg) image_hashes image_hashes ({}, []))"

subsection \<open>The handlers of the file categories\<close>

text \<open>Each handler merges the results of its strategies with \<open>duplicates.update\<close>; a
  strategy that raises ends the handler with that exception.\<close>

definition detect_generic_duplicates :: "pylib \<Rightarrow> config \<Rightarrow> file_data list \<Rightarrow> pyerror + dups" where
  "detect_generic_duplicates lib cfg fs =
     (case find_exact_hash_matches lib fs of
        Inl e \<Rightarrow> Inl e
      | Inr hash_duplicates \<Rightarrow>
          (case find_fuzzy_name_matches lib cfg fs None of
             Inl e \<Rightarrow> Inl e
           | Inr name_duplicates \<Rightarrow>
               (case find_size_based_matches lib fs False of
                  Inl e \<Rightarrow> Inl e
                | Inr size_duplicates \<Rightarrow>
                    Inr (dict_update (dict_update (dict_update [] hash_duplicates)
                           name_duplicates) size_duplicates))))"

text \<open>The perceptual pass has a \<open>try\<close> of its own: when it raises, the handler
  returns what the exact hashes gave.\<close>

definition detect_image_duplicates :: "pylib \<Rightarrow> config \<Rightarrow> file_data list \<Rightarrow> pyerror + dups" where
  "detect_image_duplicates lib cfg fs =
     (if \<not> enable_image_analysis cfg then detect_generic_duplicates lib cfg fs
      else (case find_exact_hash_matches lib fs of
              Inl e \<Rightarrow> Inl e
            | Inr hash_duplicates \<Rightarrow>
                (case find_perceptual_image_duplicates lib cfg fs of
                   Inl e \<Rightarrow> Inr (dict_update [] hash_duplicates)
                 | Inr perceptual_duplicates \<Rightarrow>
                     Inr (dict_update (dict_update [] hash_duplicates) perceptual_duplicates))))"

definition detect_document_duplicates :: "pylib \<Rightarrow> config \<Rightarrow> file_data list \<Rightarrow> pyerror + dups" where
  "detect_document_duplicates lib cfg fs =
     (case find_exact_hash_matches lib fs of
        Inl e \<Rightarrow> Inl e
      | Inr hash_duplicates \<Rightarrow>
          (case find_name_size_similarity_matches lib cfg fs of
             Inl e \<Rightarrow> Inl e
           | Inr similarity_duplicates \<Rightarrow>
               (let duplicates = dict_update (dict_update [] hash_duplicates) similarity_duplicates
                in if enable_content_analysis cfg
                   then Inr (dict_update duplicates (find_content_similarity_matches fs))
                   else Inr duplicates)))"

definition detect_video_duplicates :: "pylib \<Rightarrow> config \<Rightarrow> file_data list \<Rightarrow> pyerror + dups" where
  "detect_video_duplicates lib cfg fs =
     (case find_exact_hash_matches lib fs of
        Inl e \<Rightarrow> Inl e
      | Inr hash_duplicates \<Rightarrow>
          (case find_size_based_matches lib fs True of
             Inl e \<Rightarrow> Inl e
           | Inr size_duplicates \<Rightarrow>
               Inr (dict_update (dict_update [] hash_duplicates) size_duplicates)))"

definition detect_audio_duplicates :: "pylib \<Rightarrow> config \<Rightarrow> file_data list \<Rightarrow> pyerror + dups" where
  "detect_audio_duplicates lib cfg fs =
     (case find_exact_hash_matches lib fs of
        Inl e \<Rightarrow> Inl e
      | Inr hash_duplicates \<Rightarrow>
          (case find_fuzzy_name_matches lib cfg fs None of
             Inl e \<Rightarrow> Inl e
           | Inr name_duplicates \<Rightarrow>
               Inr (dict_update (dict_update [] hash_duplicates) name_duplicates)))"

definition detect_code_duplicates :: "pylib \<Rightarrow> config \<Rightarrow> file_data list \<Rightarrow> pyerror + dups" where
  "detect_code_duplicates lib cfg fs =
     (case find_exact_hash_matches lib fs of
        Inl e \<Rightarrow> Inl e
      | Inr hash_duplicates \<Rightarrow>
          (case find_fuzzy_name_matches lib cfg fs (Some 95) of
             Inl e \<Rightarrow> Inl e
           | Inr name_duplicates \<Rightarrow>
               Inr (dict_update (dict_update [] hash_duplicates) name_duplicates)))"

text \<open>\<open>self.file_type_handlers.get(category, self._detect_generic_duplicates)\<close>.\<close>

definition file_type_handler ::
  "string \<Rightarrow> pylib \<Rightarrow> config \<Rightarrow> file_data list \<Rightarrow> pyerror + dups" where
  "file_type_handler cat =
     (if cat = ''image'' then detect_image_duplicates
      else if cat = ''document'' then detect_document_duplicates
      else if cat = ''video'' then detect_video_duplicates
      else if cat = ''audio'' then detect_audio_duplicates
      else if cat = ''code'' then detect_code_duplicates
      else detect_generic_duplicates)"

subsection \<open>Cross-category duplicates\<close>

text \<open>\<open>list(set(...))\<close> has no specified order; the model keeps first occurrences.\<close>

definition categories_of :: "file_data list \<Rightarrow> string list" where
  "categories_of fs = remdups (map (\<lambda>f. case file_category f of None \<Rightarrow> ''unknown'' | Some c \<Rightarrow> c) fs)"

definition detect_cross_category_duplicates ::
  "pylib \<Rightarrow> (string, file_data list) pydict \<Rightarrow> pyerror + dups" where
  "detect_cross_category_duplicates lib file_groups =
     (case find_exact_hash_matches lib (concat (map snd file_groups)) of
        Inl e \<Rightarrow> Inl e
      | Inr hash_duplicates \<Rightarrow>
          Inr (foldl (\<lambda>duplicates kv.
                        if length (categories_of (files (snd kv))) > 1
                        then dict_set (''cross_'' @ fst kv)
                               ((snd kv) \<lparr> group_type := ''cross_category'',
                                          categories := Some (categories_of (files (snd kv))) \<rparr>)
                               duplicates
                        else duplicates)
                 [] hash_duplicates))"

subsection \<open>Ranking\<close>

record ranked_group =
  r_group_id :: string
  r_score :: real
  r_confidence :: string
  r_duplicate_count :: nat
  r_potential_savings_mb :: real
  r_type :: string
  r_files :: "file_data list"

text \<open>\<open>confidence_scores.get(confidence, 1)\<close>.\<close>

definition confidence_scores :: "string \<Rightarrow> real" where
  "confidence_scores c =
     (if c = ''high'' then 3 else if c = ''medium'' then 2 else if c = ''low'' then 1 else 1)"

definition rank_entry :: "string \<times> dup_group \<Rightarrow> ranked_group" where
  "rank_entry kv =
     (let potential_savings = (case potential_savings_mb (snd kv) of None \<Rightarrow> 0 | Some x \<Rightarrow> x)
      in \<lparr> r_group_id = fst kv,
           r_score = confidence_scores (confidence (snd kv)) * 100
                     + min potential_savings 1000
                     + real (duplicate_count (snd kv)) * 10,
           r_confidence = confidence (snd kv),
           r_duplicate_count = duplicate_count (snd kv),
           r_potential_savings_mb = potential_savings,
           r_type = group_type (snd kv),
           r_files = files (snd kv) \<rparr>)"

definition rank_duplicate_groups :: "dups \<Rightarrow> ranked_group list" where
  "rank_duplicate_groups duplicates = py_sort_reverse r_score (map rank_entry duplicates)"

subsection \<open>detect\_all\_duplicates\<close>

record detection_stats =
  total_files_analyzed :: nat
  files_by_category :: "(string \<times> nat) list"
  strategies_used :: "string list"
  total_duplicate_groups :: nat
  total_duplicates_found :: nat
  potential_space_saved_mb :: real

record detection_result =
  duplicates :: dups
  ranked_duplicates :: "ranked_group list"
  statistics :: detection_stats

text \<open>The list comprehension that filters by minimum size; \<open>float\<close> may raise.\<close>

fun filter_min_size :: "pylib \<Rightarrow> real \<Rightarrow> file_data list \<Rightarrow> pyerror + file_data list" where
  "filter_min_size lib min_size [] = Inr []"
| "filter_min_size lib min_size (f # fs) =
     (case size_as_float lib f of
        Inl e \<Rightarrow> Inl e
      | Inr s \<Rightarrow>
          (case filter_min_size lib min_size fs of
             Inl e \<Rightarrow> Inl e
           | Inr rest \<Rightarrow> Inr (if s \<ge> min_size then f # rest else rest)))"

text \<open>
  The loop over the categories. The handler runs inside \<open>try\<close>; when it raises, the
  category is left out (\<open>except Exception: continue\<close>). Otherwise each of its groups
  is stored under \<open>category_groupid\<close> with its \<open>'category'\<close> set.
\<close>

definition merge_category :: "string \<Rightarrow> dups \<Rightarrow> dups \<Rightarrow> dups" where
  "merge_category cat all_duplicates category_duplicates =
     foldl (\<lambda>acc kv. dict_set (cat @ ''_'' @ fst kv) ((snd kv) \<lparr> category := Some cat \<rparr>) acc)
       all_duplicates category_duplicates"

fun detect_categories ::
  "pylib \<Rightarrow> config \<Rightarrow> (string \<times> file_data list) list \<Rightarrow> dups \<Rightarrow> dups" where
  "detect_categories lib cfg [] all_duplicates = all_duplicates"
| "detect_categories lib cfg ((cat, category_files) # rest) all_duplicates =
     (if category_files = [] then detect_categories lib cfg rest all_duplicates
      else (case file_type_handler cat lib cfg category_files of
              Inl e \<Rightarrow> detect_categories lib cfg rest all_duplicates
            | Inr category_duplicates \<Rightarrow>
                detect_categories lib cfg rest
                  (merge_category cat all_duplicates category_duplicates)))"

text \<open>
  \<open>detect_all_duplicates\<close>. The analysis report and the time stamp of the result are
  computed from \<open>duplicates\<close> and \<open>statistics\<close> by dictionary reads with defaults and are
  left out of the result record.
\<close>

definition detect_all_duplicates ::
  "pylib \<Rightarrow> config \<Rightarrow> file_data list \<Rightarrow> pyerror + detection_result" where
  "detect_all_duplicates lib cfg fs =
     (case filter_min_size lib (min_file_size_mb cfg * 1024 * 1024) fs of
        Inl e \<Rightarrow> Inl e
      | Inr filtered_files \<Rightarrow>
          (let file_groups = group_files_by_category filtered_files;
               per_category = detect_categories lib cfg file_groups []
           in case detect_cross_category_duplicates lib file_groups of
                Inl e \<Rightarrow> Inl e
              | Inr cross_category_duplicates \<Rightarrow>
                  (let all_duplicates =
                         foldl (\<lambda>acc kv. dict_set (''cross_'' @ fst kv) (snd kv) acc)
                           per_category cross_category_duplicates
                   in Inr \<lparr> duplicates = all_duplicates,
                            ranked_duplicates = rank_duplicate_groups all_duplicates,
                            statistics =
                              \<lparr> total_files_analyzed = length filtered_files,
                                files_by_category = map (\<lambda>kv. (fst kv, length (snd kv))) file_groups,
                                strategies_used = [],
                                total_duplicate_groups = length all_duplicates,
                                total_duplicates_found =
                                  sum_list (map (\<lambda>kv. duplicate_count (snd kv)) all_duplicates),
                                potential_space_saved_mb =
                                  sum_list (map (\<lambda>kv. case potential_savings_mb (snd kv) of
                                                         None \<Rightarrow> 0 | Some x \<Rightarrow> x) all_duplicates)
                              \<rparr> \<rparr>)))"

section \<open>auto\_scaling\_sheets.py: class AutoScalingSheetManager\<close>

text \<open>
  The Google Sheets backend is outside the repository. Its answers are a parameter:
  \<open>create_spreadsheet name\<close> is the id of the spreadsheet that \<open>gc.create\<close> and the set-up
  calls after it produce, \<open>None\<close> when one of them raises; \<open>write_rows i sheet start rows\<close>
  tells whether opening the sheet and \<open>main_worksheet.update\<close> succeed for the batch
  that starts at offset \<open>i\<close>.
\<close>

record sheets_backend =
  create_spreadsheet :: "string \<Rightarrow> string option"
  write_rows :: "nat \<Rightarrow> string \<Rightarrow> nat \<Rightarrow> string list list \<Rightarrow> bool"

text \<open>The registry: per sheet the name, the id and the counters of its main
  worksheet.\<close>

record sheet_info =
  sheet_name :: string
  sheet_id :: string
  rows_used :: nat
  max_rows :: nat

record sheet_registry =
  sheets :: "sheet_info list"
  current_sheet_index :: nat
  total_rows_used :: nat

definition SAFE_ROW_LIMIT :: nat where
  "SAFE_ROW_LIMIT = 900000"

definition metadata_columns :: "string list" where
  "metadata_columns =
     [''file_id'', ''name'', ''mimeType'', ''size'', ''file_size_mb'',
      ''createdTime'', ''modifiedTime'', ''file_age_days'', ''last_modified_days'',
      ''owner_email'', ''owner_name'', ''sharing_status'', ''is_public'',
      ''parent_folders'', ''parent_folder_ids'', ''permission_count'',
      ''file_category'', ''fileExtension'', ''content_hash'',
      ''md5Checksum'', ''sha1Checksum'', ''sha256Checksum'',
      ''webViewLink'', ''webContentLink'', ''thumbnailLink'',
      ''trashed'', ''version'', ''scan_timestamp'', ''sheet_id'', ''row_number'']"

text \<open>The format \<open>:03d\<close>.\<close>

definition pad3 :: "nat \<Rightarrow> string" where
  "pad3 n = replicate (3 - length (show_nat n)) (CHR ''0'') @ show_nat n"

text \<open>\<open>create_new_sheet\<close> with no suffix given: the new sheet starts with the header
  row counted. A failure of the backend is raised again to the caller.\<close>

definition create_new_sheet ::
  "sheets_backend \<Rightarrow> string \<Rightarrow> sheet_registry \<Rightarrow> sheet_registry \<times> (pyerror + sheet_info)" where
  "create_new_sheet be base_sheet_name reg =
     (let nm = base_sheet_name @ ''_'' @ pad3 (length (sheets reg) + 1)
      in case create_spreadsheet be nm of
           None \<Rightarrow> (reg, Inl BackendError)
         | Some sid \<Rightarrow>
             (let info = \<lparr> sheet_name = nm, sheet_id = sid, rows_used = 1,
                           max_rows = SAFE_ROW_LIMIT \<rparr>
              in (reg \<lparr> sheets := sheets reg @ [info] \<rparr>, Inr info)))"

text \<open>\<open>get_current_sheet\<close> returns a reference into the registry: the model returns
  the index of the sheet.\<close>

definition get_current_sheet ::
  "sheets_backend \<Rightarrow> string \<Rightarrow> sheet_registry \<Rightarrow> sheet_registry \<times> (pyerror + nat)" where
  "get_current_sheet be base_sheet_name reg =
     (if sheets reg = []
      then (case create_new_sheet be base_sheet_name reg of
              (reg', Inl e) \<Rightarrow> (reg', Inl e)
            | (reg', Inr info) \<Rightarrow> (reg', Inr (length (sheets reg') - 1)))
      else if current_sheet_index reg \<ge> length (sheets reg) then (reg, Inl IndexError)
      else if rows_used (sheets reg ! current_sheet_index reg)
                \<ge> max_rows (sheets reg ! current_sheet_index reg)
      then (case create_new_sheet be base_sheet_name reg of
              (reg', Inl e) \<Rightarrow> (reg', Inl e)
            | (reg', Inr info) \<Rightarrow>
                (reg' \<lparr> current_sheet_index := length (sheets reg') - 1 \<rparr>,
                 Inr (length (sheets reg') - 1)))
      else (reg, Inr (current_sheet_index reg)))"

text \<open>The rows of a batch: each file gets \<open>sheet_id\<close> and \<open>row_number\<close>, then its
  values in column order.\<close>

fun rows_to_add ::
  "string \<Rightarrow> nat \<Rightarrow> nat \<Rightarrow> (string, string) pydict list \<Rightarrow> string list list" where
  "rows_to_add sid used k [] = []"
| "rows_to_add sid used k (file_info # batch) =
     (let fi = dict_set ''row_number'' (show_nat (used + k + 1))
                 (dict_set ''sheet_id'' sid file_info)
      in map (\<lambda>col. dict_get fi col []) metadata_columns # rows_to_add sid used (Suc k) batch)"

text \<open>
  The loop state of \<open>add_file_data\<close>: the registry, \<open>total_added\<close> and \<open>sheets_used\<close>.
  \<open>add_batch\<close> is one turn of the loop for the batch at offset \<open>i\<close>: the write is inside
  \<open>try\<close>, and the counter is increased after the write, in the same \<open>try\<close>.
\<close>

record add_state =
  registry :: sheet_registry
  total_added :: nat
  sheets_used :: "string list"

definition add_rows_used :: "nat \<Rightarrow> nat \<Rightarrow> sheet_registry \<Rightarrow> sheet_registry" where
  "add_rows_used idx n reg =
     reg \<lparr> sheets := (sheets reg) [idx := (sheets reg ! idx)
                         \<lparr> rows_used := rows_used (sheets reg ! idx) + n \<rparr>] \<rparr>"

definition add_batch ::
  "sheets_backend \<Rightarrow> string \<Rightarrow> nat \<Rightarrow> (string, string) pydict list \<Rightarrow> add_state
     \<Rightarrow> add_state \<times> pyerror option" where
  "add_batch be base_sheet_name i batch st =
     (case get_current_sheet be base_sheet_name (registry st) of
        (reg1, Inl e) \<Rightarrow> (st \<lparr> registry := reg1 \<rparr>, Some e)
      | (reg1, Inr idx) \<Rightarrow>
          (let current_sheet = sheets reg1 ! idx;
               new_rows = rows_to_add (sheet_id current_sheet) (rows_used current_sheet) 0 batch;
               used = sheets_used st @ [sheet_name current_sheet]
           in if write_rows be i (sheet_id current_sheet) (rows_used current_sheet + 1) new_rows
              then (\<lparr> registry = add_rows_used idx (length new_rows) reg1,
                      total_added = total_added st + length new_rows,
                      sheets_used = used \<rparr>, None)
              else (\<lparr> registry = reg1, total_added = total_added st, sheets_used = used \<rparr>,
                    None)))"

text \<open>\<open>for i in range(0, len(file_data), batch_size)\<close> with \<open>file_data[i:i + batch_size]\<close>;
  the recursion carries the offset and the rest of the list.\<close>

function add_batches ::
  "sheets_backend \<Rightarrow> string \<Rightarrow> nat \<Rightarrow> nat \<Rightarrow> (string, string) pydict list \<Rightarrow> add_state
     \<Rightarrow> add_state \<times> pyerror option" where
  "add_batches be base_sheet_name batch_size i file_data st =
     (if batch_size = 0 \<or> file_data = [] then (st, None)
      else (case add_batch be base_sheet_name i (take batch_size file_data) st of
              (st', Some e) \<Rightarrow> (st', Some e)
            | (st', None) \<Rightarrow>
                add_batches be base_sheet_name batch_size (i + batch_size)
                  (drop batch_size file_data) st'))"
  by pat_completeness auto
termination
  by (relation "measure (\<lambda>(be, b, n, i, fd, st). length fd)") auto

record add_summary =
  files_processed :: nat
  rows_added :: nat
  summary_sheets_used :: "string list"
  total_sheets :: nat

text \<open>\<open>add_file_data\<close>: \<open>range\<close> raises \<open>ValueError\<close> on a step of 0; an exception of
  \<open>get_current_sheet\<close> is not caught. The registry is returned in every case, since the
  method changes it in place.\<close>

definition add_file_data ::
  "sheets_backend \<Rightarrow> string \<Rightarrow> sheet_registry \<Rightarrow> (string, string) pydict list \<Rightarrow> nat
     \<Rightarrow> sheet_registry \<times> (pyerror + add_summary)" where
  "add_file_data be base_sheet_name reg file_data batch_size =
     (if batch_size = 0 then (reg, Inl ValueError)
      else (case add_batches be base_sheet_name batch_size 0 file_data
                   \<lparr> registry = reg, total_added = 0, sheets_used = [] \<rparr> of
              (st, Some e) \<Rightarrow> (registry st, Inl e)
            | (st, None) \<Rightarrow>
                (let reg' = (registry st)
                       \<lparr> total_rows_used := total_rows_used (registry st) + total_added st \<rparr>
                 in (reg', Inr \<lparr> files_processed = length file_data,
                                 rows_added = total_added st,
                                 summary_sheets_used = remdups (sheets_used st),
                                 total_sheets = length (sheets reg') \<rparr>))))"

section \<open>sheets\_utils.py and multi\_sheet\_manager.py: class MultiSheetManager\<close>

text \<open>
  Here the model keeps the content of the spreadsheets, since the code reads the row
  counts back from the backend. A worksheet is its title and the rows of its grid; a
  spreadsheet is its title and its tabs in order.
\<close>

record worksheet =
  ws_title :: string
  ws_values :: "string list list"

record spreadsheet =
  ss_title :: string
  ss_worksheets :: "worksheet list"

text \<open>
  The answers of the backend to the calls that change something, by the number of such
  calls made so far: the title under which a spreadsheet or a tab is created (\<open>None\<close>
  when the call fails) and whether a \<open>worksheet.update\<close> succeeds. Reading is taken to
  succeed.
\<close>

record sheets_api =
  new_spreadsheet_title :: "nat \<Rightarrow> string option"
  new_tab_title :: "nat \<Rightarrow> string option"
  update_ok :: "nat \<Rightarrow> bool"

text \<open>The constants of \<open>config.py\<close> that the manager reads, and its headers.\<close>

record sheets_config =
  MAX_ROWS_PER_SHEET :: nat
  MAX_SHEETS_PER_SPREADSHEET :: nat
  headers :: "string list"

definition DEFAULT_HEADERS :: "string list" where
  "DEFAULT_HEADERS =
     [''Document ID'', ''Document Title'', ''Source URL'', ''Processing Date'',
      ''Content Type'', ''Summary'', ''Tags'', ''Status'', ''Notes'']"

definition default_sheets_config :: sheets_config where
  "default_sheets_config =
     \<lparr> MAX_ROWS_PER_SHEET = 5000, MAX_SHEETS_PER_SPREADSHEET = 10,
       headers = DEFAULT_HEADERS \<rparr>"

text \<open>
  The manager and the backend together: \<open>drive\<close> holds the spreadsheets,
  \<open>current_spreadsheet\<close> is an index into it, \<open>current_worksheet\<close> is a spreadsheet
  index and a tab index, \<open>calls\<close> counts the changing calls.
\<close>

record manager =
  drive :: "spreadsheet list"
  current_spreadsheet :: "nat option"
  current_worksheet :: "(nat \<times> nat) option"
  calls :: nat

definition new_manager :: manager where
  "new_manager = \<lparr> drive = [], current_spreadsheet = None, current_worksheet = None, calls = 0 \<rparr>"

definition get_ws :: "manager \<Rightarrow> nat \<times> nat \<Rightarrow> worksheet" where
  "get_ws m r = ss_worksheets (drive m ! fst r) ! snd r"

definition put_ws :: "nat \<times> nat \<Rightarrow> worksheet \<Rightarrow> manager \<Rightarrow> manager" where
  "put_ws r ws m =
     m \<lparr> drive := (drive m) [fst r := (drive m ! fst r)
            \<lparr> ss_worksheets := (ss_worksheets (drive m ! fst r)) [snd r := ws] \<rparr>] \<rparr>"

subsection \<open>sheets\_utils.py\<close>

text \<open>\<open>any(cell.strip() for cell in row)\<close>.\<close>

definition row_nonblank :: "string list \<Rightarrow> bool" where
  "row_nonblank r = list_ex (\<lambda>cell. py_strip cell \<noteq> []) r"

definition get_sheet_row_count :: "worksheet \<Rightarrow> nat" where
  "get_sheet_row_count ws = length (filter row_nonblank (ws_values ws))"

definition is_sheet_full :: "sheets_config \<Rightarrow> worksheet \<Rightarrow> bool" where
  "is_sheet_full cfg ws = (get_sheet_row_count ws \<ge> MAX_ROWS_PER_SHEET cfg)"

text \<open>\<open>worksheet.update\<close> of the rows \<open>data\<close> from row \<open>start\<close> on (rows count from 1).\<close>

definition write_at :: "nat \<Rightarrow> string list list \<Rightarrow> string list list \<Rightarrow> string list list" where
  "write_at start data vals =
     (let k = start - 1
      in take k (vals @ replicate (k - length vals) []) @ data @ drop (k + length data) vals)"

definition worksheet_update ::
  "sheets_api \<Rightarrow> nat \<times> nat \<Rightarrow> nat \<Rightarrow> string list list \<Rightarrow> manager \<Rightarrow> manager \<times> bool" where
  "worksheet_update api r start data m =
     (if update_ok api (calls m)
      then ((put_ws r ((get_ws m r) \<lparr> ws_values := write_at start data (ws_values (get_ws m r)) \<rparr>) m)
              \<lparr> calls := calls m + 1 \<rparr>, True)
      else (m \<lparr> calls := calls m + 1 \<rparr>, False))"

definition create_new_sheet_tab ::
  "sheets_api \<Rightarrow> nat \<Rightarrow> manager \<Rightarrow> manager \<times> (nat \<times> nat) option" where
  "create_new_sheet_tab api i m =
     (case new_tab_title api (calls m) of
        None \<Rightarrow> (m \<lparr> calls := calls m + 1 \<rparr>, None)
      | Some t \<Rightarrow>
          (m \<lparr> drive := (drive m) [i := (drive m ! i)
                  \<lparr> ss_worksheets := ss_worksheets (drive m ! i)
                       @ [\<lparr> ws_title = t, ws_values = [] \<rparr>] \<rparr>],
               calls := calls m + 1 \<rparr>,
           Some (i, length (ss_worksheets (drive m ! i)))))"

definition setup_sheet_headers ::
  "sheets_api \<Rightarrow> nat \<times> nat \<Rightarrow> string list \<Rightarrow> manager \<Rightarrow> manager \<times> bool" where
  "setup_sheet_headers api r hs m = worksheet_update api r 1 [hs] m"

definition batch_update_sheet ::
  "sheets_api \<Rightarrow> nat \<times> nat \<Rightarrow> string list list \<Rightarrow> manager \<Rightarrow> manager \<times> bool" where
  "batch_update_sheet api r data_list m =
     worksheet_update api r (get_sheet_row_count (get_ws m r) + 1) data_list m"

text \<open>The index of the first tab that is not full.\<close>

definition first_not_full :: "sheets_config \<Rightarrow> worksheet list \<Rightarrow> nat option" where
  "first_not_full cfg wss =
     (case filter (\<lambda>j. \<not> is_sheet_full cfg (wss ! j)) [0 ..< length wss] of
        [] \<Rightarrow> None
      | j # _ \<Rightarrow> Some j)"

definition find_available_sheet ::
  "sheets_config \<Rightarrow> sheets_api \<Rightarrow> nat \<Rightarrow> manager \<Rightarrow> manager \<times> (nat \<times> nat) option" where
  "find_available_sheet cfg api i m =
     (case first_not_full cfg (ss_worksheets (drive m ! i)) of
        Some j \<Rightarrow> (m, Some (i, j))
      | None \<Rightarrow> create_new_sheet_tab api i m)"

subsection \<open>multi\_sheet\_manager.py\<close>

text \<open>
  \<open>_create_new_spreadsheet\<close>: the Drive call that fails makes the method raise; after
  it the first tab is renamed and gets the headers (a failure to write them is ignored).
  The method returns the new spreadsheet, here its index; opening the spreadsheet just
  created is taken to succeed, so the \<open>return None\<close> of the method does not occur.
\<close>

definition create_new_spreadsheet ::
  "sheets_config \<Rightarrow> sheets_api \<Rightarrow> manager \<Rightarrow> manager \<times> (pyerror + nat)" where
  "create_new_spreadsheet cfg api m =
     (case new_spreadsheet_title api (calls m) of
        None \<Rightarrow> (m \<lparr> calls := calls m + 1 \<rparr>, Inl BackendError)
      | Some t \<Rightarrow>
          (let i = length (drive m);
               m1 = m \<lparr> drive := drive m
                          @ [\<lparr> ss_title = t,
                               ss_worksheets = [\<lparr> ws_title = ''Data_001'', ws_values = [] \<rparr>] \<rparr>],
                        current_spreadsheet := Some i,
                        calls := calls m + 1 \<rparr>;
               m2 = fst (setup_sheet_headers api (i, 0) (headers cfg) m1)
           in (m2 \<lparr> current_worksheet := Some (i, 0) \<rparr>, Inr i)))"

definition spreadsheet_has_capacity ::
  "sheets_config \<Rightarrow> sheets_api \<Rightarrow> manager \<Rightarrow> manager \<times> bool" where
  "spreadsheet_has_capacity cfg api m =
     (case current_spreadsheet m of
        None \<Rightarrow> (m, False)
      | Some i \<Rightarrow>
          if length (ss_worksheets (drive m ! i)) \<ge> MAX_SHEETS_PER_SPREADSHEET cfg
          then (case first_not_full cfg (ss_worksheets (drive m ! i)) of
                  Some j \<Rightarrow> (m \<lparr> current_worksheet := Some (i, j) \<rparr>, True)
                | None \<Rightarrow> (m, False))
          else (case find_available_sheet cfg api i m of
                  (m', Some r) \<Rightarrow> (m' \<lparr> current_worksheet := Some r \<rparr>, True)
                | (m', None) \<Rightarrow> (m', False)))"

definition get_or_create_spreadsheet ::
  "sheets_config \<Rightarrow> sheets_api \<Rightarrow> bool \<Rightarrow> manager \<Rightarrow> manager \<times> (pyerror + nat)" where
  "get_or_create_spreadsheet cfg api force_new m =
     (case current_spreadsheet m of
        None \<Rightarrow> create_new_spreadsheet cfg api m
      | Some i \<Rightarrow>
          if force_new then create_new_spreadsheet cfg api m
          else (case spreadsheet_has_capacity cfg api m of
                  (m', True) \<Rightarrow> (m', Inr i)
                | (m', False) \<Rightarrow> create_new_spreadsheet cfg api m'))"

record batch_results =
  total_rows :: nat
  successful_rows :: nat
  failed_rows :: nat
  spreadsheets_used :: "string list"
  worksheets_used :: "string list"

text \<open>The result sets are kept as lists without repetitions.\<close>

definition set_add :: "'a \<Rightarrow> 'a list \<Rightarrow> 'a list" where
  "set_add x xs = (if x \<in> set xs then xs else xs @ [x])"

text \<open>
  The four places of \<open>add_batch_data\<close> that write rows to \<open>self.current_worksheet\<close>
  and count them as successful or failed. \<open>spreadsheet\<close> is the local variable of that
  name.
\<close>

definition write_current ::
  "sheets_api \<Rightarrow> nat \<Rightarrow> string list list \<Rightarrow> manager \<times> batch_results \<Rightarrow> manager \<times> batch_results" where
  "write_current api spreadsheet data st =
     (case current_worksheet (fst st) of
        None \<Rightarrow> st
      | Some r \<Rightarrow>
          (case batch_update_sheet api r data (fst st) of
             (m', True) \<Rightarrow>
               (m', (snd st) \<lparr> successful_rows := successful_rows (snd st) + length data,
                              spreadsheets_used :=
                                set_add (ss_title (drive m' ! spreadsheet)) (spreadsheets_used (snd st)),
                              worksheets_used :=
                                set_add (ws_title (get_ws m' r)) (worksheets_used (snd st)) \<rparr>)
           | (m', False) \<Rightarrow>
               (m', (snd st) \<lparr> failed_rows := failed_rows (snd st) + length data \<rparr>)))"

text \<open>
  Getting the next worksheet for rows that do not fit: another tab of the same
  spreadsheet (with headers when it has no rows), else a new spreadsheet. The result
  carries the new value of the local variable \<open>spreadsheet\<close>.
\<close>

definition next_worksheet ::
  "sheets_config \<Rightarrow> sheets_api \<Rightarrow> nat \<Rightarrow> manager \<Rightarrow> manager \<times> (pyerror + nat)" where
  "next_worksheet cfg api spreadsheet m =
     (case find_available_sheet cfg api spreadsheet m of
        (m1, Some r) \<Rightarrow>
          (let m2 = m1 \<lparr> current_worksheet := Some r \<rparr>
           in if get_sheet_row_count (get_ws m2 r) = 0
              then (fst (setup_sheet_headers api r (headers cfg) m2), Inr spreadsheet)
              else (m2, Inr spreadsheet))
      | (m1, None) \<Rightarrow> get_or_create_spreadsheet cfg api True m1)"

text \<open>One turn of the loop of \<open>add_batch_data\<close>. An exception leaves the loop for the
  \<open>except\<close> of the method.\<close>

definition add_chunk ::
  "sheets_config \<Rightarrow> sheets_api \<Rightarrow> string list list \<Rightarrow> manager \<times> batch_results
     \<Rightarrow> (manager \<times> batch_results) \<times> pyerror option" where
  "add_chunk cfg api chunk st =
     (case get_or_create_spreadsheet cfg api False (fst st) of
        (m1, Inl e) \<Rightarrow> ((m1, snd st), Some e)
      | (m1, Inr spreadsheet) \<Rightarrow>
          (case current_worksheet m1 of
             None \<Rightarrow>
               ((m1, (snd st) \<lparr> failed_rows := failed_rows (snd st) + length chunk \<rparr>), None)
           | Some r \<Rightarrow>
               (let current_rows = get_sheet_row_count (get_ws m1 r)
                in if current_rows + length chunk > MAX_ROWS_PER_SHEET cfg
                   then (let available_space = int (MAX_ROWS_PER_SHEET cfg) - int current_rows
                         in if available_space > 0
                            then (let partial_chunk = take (nat available_space) chunk;
                                      remaining_chunk = drop (nat available_space) chunk;
                                      st2 = write_current api spreadsheet partial_chunk (m1, snd st)
                                  in if remaining_chunk \<noteq> []
                                     then (case next_worksheet cfg api spreadsheet (fst st2) of
                                             (m3, Inl e) \<Rightarrow> ((m3, snd st2), Some e)
                                           | (m3, Inr sp) \<Rightarrow>
                                               (write_current api sp remaining_chunk (m3, snd st2), None))
                                     else (st2, None))
                            else (case next_worksheet cfg api spreadsheet m1 of
                                    (m3, Inl e) \<Rightarrow> ((m3, snd st), Some e)
                                  | (m3, Inr sp) \<Rightarrow>
                                      (write_current api sp chunk (m3, snd st), None)))
                   else (write_current api spreadsheet chunk (m1, snd st), None))))"

function add_chunks ::
  "sheets_config \<Rightarrow> sheets_api \<Rightarrow> nat \<Rightarrow> string list list \<Rightarrow> manager \<times> batch_results
     \<Rightarrow> (manager \<times> batch_results) \<times> pyerror option" where
  "add_chunks cfg api chunk_size data_list st =
     (if chunk_size = 0 then (st, Some ValueError)
      else if data_list = [] then (st, None)
      else (case add_chunk cfg api (take chunk_size data_list) st of
              (st', Some e) \<Rightarrow> (st', Some e)
            | (st', None) \<Rightarrow> add_chunks cfg api chunk_size (drop chunk_size data_list) st'))"
  by pat_completeness auto
termination
  by (relation "measure (\<lambda>(cfg, api, n, dl, st). length dl)") auto

text \<open>\<open>add_batch_data\<close>: the \<open>except\<close> of the method counts every row that was not
  written as failed.\<close>

definition add_batch_data ::
  "sheets_config \<Rightarrow> sheets_api \<Rightarrow> manager \<Rightarrow> string list list \<Rightarrow> nat \<Rightarrow> manager \<times> batch_results" where
  "add_batch_data cfg api m data_list chunk_size =
     (case add_chunks cfg api chunk_size data_list
             (m, \<lparr> total_rows = length data_list, successful_rows = 0, failed_rows = 0,
                   spreadsheets_used = [], worksheets_used = [] \<rparr>) of
        (st, None) \<Rightarrow> st
      | (st, Some e) \<Rightarrow>
          (fst st, (snd st) \<lparr> failed_rows := total_rows (snd st) - successful_rows (snd st) \<rparr>))"

section \<open>Notions used in the statements, and concrete inputs\<close>

text \<open>A strategy result is positive when it reports a duplicate; \<open>first_positive\<close> is the
  first positive result of a list, or \<open>(False, None)\<close>.\<close>

definition positive :: "pyerror + match_result \<Rightarrow> bool" where
  "positive r = (case r of Inr (True, info) \<Rightarrow> True | _ \<Rightarrow> False)"

definition first_positive :: "(pyerror + match_result) list \<Rightarrow> pyerror + match_result" where
  "first_positive rs = (case filter positive rs of [] \<Rightarrow> Inr (False, None) | r # _ \<Rightarrow> r)"


text \<open>A field contributes to the content hash.\<close>

definition part_ok :: "row \<Rightarrow> string \<Rightarrow> bool" where
  "part_ok r f =
     (case map_of r f of None \<Rightarrow> False | Some v \<Rightarrow> truthy v \<and> normalize_text v \<noteq> [])"


text \<open>
  A library for concrete inputs. \<open>fuzz.ratio\<close> of two equal non-empty strings is 100, and
  the inputs below compare equal strings only; the digest is replaced by the string
  itself, which like MD5 gives equal digests for equal inputs; the number parsers read
  decimal digits; the perceptual hashes of a thumbnail are read off its link.
\<close>

definition digit_value :: "char \<Rightarrow> nat option" where
  "digit_value c = map_of (zip ''0123456789'' [0, 1, 2, 3, 4, 5, 6, 7, 8, 9]) c"

definition parse_nat :: "string \<Rightarrow> nat option" where
  "parse_nat cs =
     (if cs \<noteq> [] \<and> list_all (\<lambda>c. digit_value c \<noteq> None) cs
      then Some (foldl (\<lambda>n c. 10 * n + the (digit_value c)) 0 cs) else None)"

definition demo_lib :: pylib where
  "demo_lib =
     \<lparr> fuzz_ratio = (\<lambda>a b. Inr (if a = b then 100 else 0)),
       md5_hexdigest = (\<lambda>s. Inr s),
       py_float = (\<lambda>s. map_option real (parse_nat s)),
       py_int = (\<lambda>s. map_option int (parse_nat s)),
       thumbnail_hashes = (\<lambda>link. Some (map (\<lambda>t. (t, link)) hash_types)),
       fuzzy_available = True \<rparr>"

definition demo_detector :: detector where
  "demo_detector = new_detector None (Some ''multi'') None"

definition demo_row :: row where
  "demo_row = [(''Document Title'', Str ''Annual Report''), (''Summary'', Str ''Figures, 2020'')]"

definition demo_frame :: dataframe where
  "demo_frame = \<lparr> columns = [''Document Title'', ''Summary''],
                   rows = [(0, [Str ''annual report'', Str ''figures 2020''])] \<rparr>"




text \<open>What the counters of a registry hold beyond the header rows and the rows counted
  as added.\<close>

definition counter_balance :: "add_state \<Rightarrow> int" where
  "counter_balance st =
     int (sum_list (map rows_used (sheets (registry st))))
       - int (length (sheets (registry st))) - int (total_added st)"

definition demo_backend :: sheets_backend where
  "demo_backend =
     \<lparr> create_spreadsheet = (\<lambda>nm. Some (''id_'' @ nm)),
       write_rows = (\<lambda>i sid start rs. i \<noteq> 0) \<rparr>"

definition empty_registry :: sheet_registry where
  "empty_registry = \<lparr> sheets = [], current_sheet_index = 0, total_rows_used = 0 \<rparr>"

definition demo_files :: "(string, string) pydict list" where
  "demo_files = [[(''file_id'', ''a'')], [(''file_id'', ''b'')], [(''file_id'', ''c'')]]"








section \<open>Properties of duplicate\_detector.py\<close>

subsection \<open>The content hash\<close>

lemma map_of_perm:
  assumes "distinct (map fst xs)" and "mset ys = mset xs"
  shows "map_of ys = map_of xs"
proof -
  have "mset (map fst ys) = mset (map fst xs)" using assms(2) by simp
  then have "distinct (map fst ys)" using assms(1) by (metis mset_eq_imp_distinct_iff)
  moreover have "set ys = set xs" using assms(2) by (rule mset_eq_setD)
  ultimately show ?thesis using assms(1) by (simp add: map_of_inject_set)
qed

lemma content_parts_cong:
  "map_of r1 = map_of r2 \<Longrightarrow> content_parts r1 fs = content_parts r2 fs"
  by (induction fs) (auto split: option.splits)

lemma content_parts_map_filter:
  "content_parts r fs = map (\<lambda>f. normalize_text (cell_of r f)) (filter (part_ok r) fs)"
  by (induction fs) (auto simp: part_ok_def cell_of_def split: option.splits)

lemma content_parts_mset:
  "mset fs = mset fs' \<Longrightarrow> mset (content_parts r fs) = mset (content_parts r fs')"
  by (simp add: content_parts_map_filter)

lemma sort_mset_eq: "mset (xs :: string list) = mset ys \<Longrightarrow> sort xs = sort ys"
  by (metis properties_for_sort mset_sort sorted_sort)

lemma content_parts_Nil_iff:
  "content_parts row_data flds = [] \<longleftrightarrow>
     (\<forall>f\<in>set flds. normalize_text (cell_of row_data f) = [])"
  by (induction flds) (auto simp: cell_of_def normalize_text_def split: option.splits)

lemma generate_content_hash_None_iff:
  "generate_content_hash lib row_data (Some flds) = Inr None
     \<longleftrightarrow> content_parts row_data flds = []"
  by (auto simp: generate_content_hash_def Let_def split: sum.splits)

text \<open>
  Claim C6. The content hash does not depend on the order of the field list nor on the
  order of the keys of the row: for a permutation \<open>flds'\<close> of the fields and a
  permutation \<open>row'\<close> of the items of the row, the hash is the same. It is \<open>None\<close>
  exactly when every field normalizes to the empty string (an absent field counts as
  empty), that is when no field produced content.
\<close>

theorem content_hash_order_invariant:
  assumes "mset flds' = mset flds"
    and "distinct (map fst row_data)"
    and "mset row' = mset row_data"
  shows "generate_content_hash lib row' (Some flds') = generate_content_hash lib row_data (Some flds)
     \<and> (generate_content_hash lib row_data (Some flds) = Inr None
          \<longleftrightarrow> (\<forall>f\<in>set flds. normalize_text (cell_of row_data f) = []))"
proof -
  have m: "map_of row' = map_of row_data" using assms(2,3) by (rule map_of_perm)
  have "mset (content_parts row' flds') = mset (content_parts row_data flds)"
    using content_parts_cong[OF m] content_parts_mset[OF assms(1)] by simp
  then have "sort (content_parts row' flds') = sort (content_parts row_data flds)"
    and "(content_parts row' flds' = []) = (content_parts row_data flds = [])"
    by (rule sort_mset_eq, metis mset_zero_iff)
  then have "generate_content_hash lib row' (Some flds')
      = generate_content_hash lib row_data (Some flds)"
    by (simp add: generate_content_hash_def Let_def)
  then show ?thesis
    by (simp add: generate_content_hash_None_iff content_parts_Nil_iff)
qed

lemmas str_defs = normalize_text_def remove_punct_def py_lower_def lower_char_def upper_chars_def
  lower_chars_def py_strip_def is_space_def is_word_def

theorem content_hash_order_invariant_witness:
  "generate_content_hash demo_lib [(''Tags'', Str ''a''), (''Summary'', Str ''B b'')]
       (Some [''Tags'', ''Summary''])
     = generate_content_hash demo_lib [(''Summary'', Str ''B b''), (''Tags'', Str ''a'')]
         (Some [''Summary'', ''Tags''])
   \<and> generate_content_hash demo_lib [(''Summary'', Str ''B b''), (''Tags'', Str ''a'')]
         (Some [''Summary'', ''Tags'']) \<noteq> Inr None"
proof -
  have h1: "mset [''Tags'', ''Summary''] = mset [''Summary'', ''Tags'']"
    by (simp add: add_mset_commute)
  have h2: "distinct (map fst [(''Summary'', Str ''B b''), (''Tags'', Str ''a'')])"
    by simp
  have h3: "mset [(''Tags'', Str ''a''), (''Summary'', Str ''B b'')]
      = mset [(''Summary'', Str ''B b''), (''Tags'', Str ''a'')]"
    by (simp add: add_mset_commute)
  have n: "normalize_text (cell_of [(''Summary'', Str ''B b''), (''Tags'', Str ''a'')] ''Tags'') \<noteq> []"
    by (simp add: cell_of_def str_defs)
  from content_hash_order_invariant[OF h1 h2 h3, of demo_lib] n show ?thesis
    by auto
qed

subsection \<open>The empty corpus\<close>

text \<open>
  Claim C9. Whatever the new row and the detection method, \<open>check_for_duplicate\<close> on a
  corpus that is \<open>None\<close> or an empty DataFrame returns \<open>(False, None)\<close>.
\<close>

theorem check_for_duplicate_empty_corpus:
  assumes "existing_data = None \<or> (\<exists>df. existing_data = Some df \<and> df_empty df)"
  shows "check_for_duplicate lib d new existing_data = Inr (False, None)"
  using assms by (auto simp: check_for_duplicate_def)

theorem check_for_duplicate_empty_corpus_witness:
  "check_for_duplicate demo_lib demo_detector (RowDict demo_row) None = Inr (False, None)
   \<and> check_for_duplicate demo_lib demo_detector (RowDict demo_row)
        (Some \<lparr> columns = [''Document Title''], rows = [] \<rparr>) = Inr (False, None)"
proof -
  have e: "df_empty \<lparr> columns = [''Document Title''], rows = [] \<rparr>"
    by (simp add: df_empty_def)
  show ?thesis
    using check_for_duplicate_empty_corpus[of None demo_lib demo_detector "RowDict demo_row"]
      check_for_duplicate_empty_corpus[of "Some \<lparr> columns = [''Document Title''], rows = [] \<rparr>"
        demo_lib demo_detector "RowDict demo_row"] e
    by simp
qed

subsection \<open>The method multi\<close>

lemma try_strategies_first:
  "Inr (try_strategies ss lib d r df) = first_positive (map (\<lambda>s. s lib d r df) ss)"
  by (induction ss)
    (auto simp: first_positive_def positive_def split: sum.splits bool.splits prod.splits)

text \<open>
  Claim C1, as the code has it. With the method \<open>"multi"\<close> and a corpus that is not
  empty, \<open>check_for_duplicate\<close> tries the strategies in the order exact, fuzzy key, title
  similarity, content hash, and returns the result of the first one that reports a
  duplicate (a strategy that raises counts as not reporting one), whatever the scores of
  the later ones; there is no size strategy.
\<close>

theorem check_for_duplicate_multi_order:
  assumes "det_method d = ''multi''" and "\<not> df_empty df"
  shows "check_for_duplicate lib d new (Some df) =
     first_positive [exact_match lib d (as_row df new) df, fuzzy_match lib d (as_row df new) df,
       title_similarity_match lib d (as_row df new) df,
       content_hash_match lib d (as_row df new) df]"
proof -
  have "check_for_duplicate lib d new (Some df)
      = Inr (try_strategies multi_strategies lib d (as_row df new) df)"
    using assms by (simp add: check_for_duplicate_def)
  also have "\<dots> = first_positive (map (\<lambda>s. s lib d (as_row df new) df) multi_strategies)"
    by (rule try_strategies_first)
  finally show ?thesis by (simp add: multi_strategies_def)
qed

lemma demo_detector_multi: "det_method demo_detector = ''multi''"
  by (simp add: demo_detector_def new_detector_def)

lemma demo_frame_not_empty: "\<not> df_empty demo_frame"
  by (simp add: demo_frame_def df_empty_def)

theorem check_for_duplicate_multi_order_witness:
  "check_for_duplicate demo_lib demo_detector (RowDict demo_row) (Some demo_frame) =
     first_positive [exact_match demo_lib demo_detector demo_row demo_frame,
       fuzzy_match demo_lib demo_detector demo_row demo_frame,
       title_similarity_match demo_lib demo_detector demo_row demo_frame,
       content_hash_match demo_lib demo_detector demo_row demo_frame]"
  using check_for_duplicate_multi_order[OF demo_detector_multi demo_frame_not_empty,
      of demo_lib "RowDict demo_row"]
  by (simp add: as_row_def)

text \<open>
  The claim puts the content hash before the title similarity. On this input both
  match, the content hash with score 100, and the code returns the title match.
\<close>

theorem check_for_duplicate_multi_order_counterexample:
  "positive (content_hash_match demo_lib demo_detector demo_row demo_frame)
   \<and> map_option match_type
        (snd (projr (check_for_duplicate demo_lib demo_detector (RowDict demo_row) (Some demo_frame))))
       = Some ''title_similarity''"
  by code_simp

subsection \<open>The duplicate marker\<close>











section \<open>Properties of advanced\_duplicate\_detector.py\<close>

subsection \<open>Ranking\<close>








subsection \<open>Perceptual image groups\<close>














section \<open>Properties of auto\_scaling\_sheets.py\<close>

lemma length_rows_to_add: "length (rows_to_add sid used k batch) = length batch"
  by (induction batch arbitrary: k) (auto simp: Let_def)

lemma create_new_sheet_cases:
  "create_new_sheet be b reg = (reg', r) \<Longrightarrow>
     (reg' = reg \<and> r = Inl BackendError)
     \<or> (\<exists>info. r = Inr info \<and> rows_used info = 1 \<and> reg' = reg \<lparr> sheets := sheets reg @ [info] \<rparr>)"
  by (auto simp: create_new_sheet_def Let_def split: option.splits)

lemma get_current_sheet_cases:
  assumes "get_current_sheet be b reg = (reg1, r)"
  shows "(r \<noteq> Inr idx \<or> idx < length (sheets reg1))
     \<and> ((sheets reg1 = sheets reg)
        \<or> (\<exists>info. rows_used info = 1 \<and> sheets reg1 = sheets reg @ [info]))"
  using assms
  by (auto simp: get_current_sheet_def split: if_splits prod.splits sum.splits
      dest!: create_new_sheet_cases)

lemma sum_rows_used_update:
  "idx < length ss \<Longrightarrow>
     sum_list (map rows_used (ss [idx := (ss ! idx) \<lparr> rows_used := rows_used (ss ! idx) + n \<rparr>]))
       = sum_list (map rows_used ss) + n"
proof (induction ss arbitrary: idx)
  case Nil then show ?case by simp
next
  case (Cons a ss) then show ?case by (cases idx) auto
qed

lemma add_batch_balance:
  "counter_balance (fst (add_batch be b i batch st)) = counter_balance st"
proof -
  obtain reg1 r where g: "get_current_sheet be b (registry st) = (reg1, r)" by force
  have c: "(sheets reg1 = sheets (registry st))
        \<or> (\<exists>info. rows_used info = 1 \<and> sheets reg1 = sheets (registry st) @ [info])"
    using get_current_sheet_cases[OF g] by blast
  show ?thesis
  proof (cases r)
    case (Inl e)
    then show ?thesis using g c by (auto simp: add_batch_def counter_balance_def)
  next
    case (Inr idx)
    then have "idx < length (sheets reg1)" using get_current_sheet_cases[OF g, of idx] by simp
    then show ?thesis using g c Inr
      by (auto simp: add_batch_def counter_balance_def Let_def add_rows_used_def
          sum_rows_used_update length_rows_to_add)
  qed
qed

lemma add_batches_balance:
  "counter_balance (fst (add_batches be b n i fd st)) = counter_balance st"
proof (induction be b n i fd st rule: add_batches.induct)
  case (1 be b n i fd st)
  show ?case
  proof (cases "n = 0 \<or> fd = []")
    case True then show ?thesis by simp
  next
    case False
    obtain st' r where a: "add_batch be b i (take n fd) st = (st', r)" by force
    have b': "counter_balance st' = counter_balance st" using add_batch_balance[of be b i "take n fd" st] a by simp
    show ?thesis
    proof (cases r)
      case None
      then show ?thesis using 1[OF False a[symmetric]] a b' False by (simp del: add_batches.simps add: add_batches.simps[of be b n i fd st])
    next
      case (Some e)
      then show ?thesis using a b' False by (simp del: add_batches.simps add: add_batches.simps[of be b n i fd st])
    qed
  qed
qed


lemma get_current_sheet_total:
  "get_current_sheet be b reg = (reg1, r) \<Longrightarrow> total_rows_used reg1 = total_rows_used reg"
  by (auto simp: get_current_sheet_def create_new_sheet_def Let_def
      split: if_splits prod.splits sum.splits option.splits)

lemma add_batch_total:
  "total_rows_used (registry (fst (add_batch be b i batch st))) = total_rows_used (registry st)"
proof -
  obtain reg1 r where g: "get_current_sheet be b (registry st) = (reg1, r)" by force
  show ?thesis using g get_current_sheet_total[OF g]
    by (cases r) (auto simp: add_batch_def Let_def add_rows_used_def)
qed

lemma add_batches_total:
  "total_rows_used (registry (fst (add_batches be b n i fd st))) = total_rows_used (registry st)"
proof (induction be b n i fd st rule: add_batches.induct)
  case (1 be b n i fd st)
  show ?case
  proof (cases "n = 0 \<or> fd = []")
    case True then show ?thesis by simp
  next
    case False
    obtain st' r where a: "add_batch be b i (take n fd) st = (st', r)" by force
    have b': "total_rows_used (registry st') = total_rows_used (registry st)"
      using add_batch_total[of be b i "take n fd" st] a by simp
    show ?thesis
    proof (cases r)
      case None
      then show ?thesis using 1[OF False a[symmetric]] a b' False
        by (simp del: add_batches.simps add: add_batches.simps[of be b n i fd st])
    next
      case (Some e)
      then show ?thesis using a b' False
        by (simp del: add_batches.simps add: add_batches.simps[of be b n i fd st])
    qed
  qed
qed

text \<open>
  Claim C3. In one turn of the loop of \<open>add_file_data\<close>, for the sheet that
  \<open>get_current_sheet\<close> returns: a write that succeeds increases \<open>rows_used\<close> of that sheet
  by the number of rows of the batch, a write that fails leaves the registry as it was,
  and no other sheet changes. Over a whole call, the counters grow by exactly the rows
  reported as added, plus the header row of each sheet created.
\<close>

theorem add_file_data_counter:
  "(\<forall>reg1 idx. get_current_sheet be base (registry st) = (reg1, Inr idx) \<longrightarrow>
      (let target = sheets reg1 ! idx;
           ok = write_rows be i (sheet_id target) (rows_used target + 1)
                  (rows_to_add (sheet_id target) (rows_used target) 0 batch);
           reg2 = registry (fst (add_batch be base i batch st))
       in rows_used (sheets reg2 ! idx) = rows_used target + (if ok then length batch else 0)
          \<and> (\<not> ok \<longrightarrow> reg2 = reg1)
          \<and> (\<forall>j. j \<noteq> idx \<longrightarrow> sheets reg2 ! j = sheets reg1 ! j)))
   \<and> (\<forall>reg' summary. add_file_data be base reg file_data batch_size = (reg', Inr summary) \<longrightarrow>
         int (sum_list (map rows_used (sheets reg')))
           = int (sum_list (map rows_used (sheets reg))) + int (rows_added summary)
             + (int (length (sheets reg')) - int (length (sheets reg)))
         \<and> total_rows_used reg' = total_rows_used reg + rows_added summary)"
proof (intro conjI allI impI)
  fix reg1 idx
  assume g: "get_current_sheet be base (registry st) = (reg1, Inr idx)"
  have "idx < length (sheets reg1)" using get_current_sheet_cases[OF g, of idx] by simp
  then show "let target = sheets reg1 ! idx;
           ok = write_rows be i (sheet_id target) (rows_used target + 1)
                  (rows_to_add (sheet_id target) (rows_used target) 0 batch);
           reg2 = registry (fst (add_batch be base i batch st))
       in rows_used (sheets reg2 ! idx) = rows_used target + (if ok then length batch else 0)
          \<and> (\<not> ok \<longrightarrow> reg2 = reg1)
          \<and> (\<forall>j. j \<noteq> idx \<longrightarrow> sheets reg2 ! j = sheets reg1 ! j)"
    using g by (simp add: add_batch_def Let_def add_rows_used_def length_rows_to_add)
next
  fix reg' summary
  assume a: "add_file_data be base reg file_data batch_size = (reg', Inr summary)"
  let ?st0 = "\<lparr> registry = reg, total_added = 0, sheets_used = [] \<rparr>"
  obtain st r where b: "add_batches be base batch_size 0 file_data ?st0 = (st, r)" by force
  have bal: "counter_balance st = counter_balance ?st0"
    using add_batches_balance[of be base batch_size 0 file_data ?st0] b by simp
  have r: "r = None" "batch_size \<noteq> 0" using a b
    by (auto simp: add_file_data_def split: if_splits option.splits)
  have reg': "reg' = (registry st) \<lparr> total_rows_used := total_rows_used (registry st) + total_added st \<rparr>"
    and sm: "rows_added summary = total_added st"
    using a b r by (auto simp: add_file_data_def Let_def)
  show "int (sum_list (map rows_used (sheets reg')))
           = int (sum_list (map rows_used (sheets reg))) + int (rows_added summary)
             + (int (length (sheets reg')) - int (length (sheets reg)))"
    using bal reg' sm by (simp add: counter_balance_def)
  show "total_rows_used reg' = total_rows_used reg + rows_added summary"
    using add_batches_total[of be base batch_size 0 file_data ?st0] b reg' sm by simp
qed


lemma demo_add_file_data:
  "add_file_data demo_backend ''Drive'' empty_registry demo_files 2
     = (\<lparr> sheets = [\<lparr> sheet_name = ''Drive_001'', sheet_id = ''id_Drive_001'',
                        rows_used = 2, max_rows = 900000 \<rparr>],
           current_sheet_index = 0, total_rows_used = 1 \<rparr>,
        Inr \<lparr> files_processed = 3, rows_added = 1, summary_sheets_used = [''Drive_001''],
              total_sheets = 1 \<rparr>)"
  by (simp add: add_file_data_def add_batch_def get_current_sheet_def create_new_sheet_def
      demo_backend_def empty_registry_def demo_files_def Let_def pad3_def digit_char_def
      SAFE_ROW_LIMIT_def add_rows_used_def length_rows_to_add numeral_2_eq_2)

theorem add_file_data_counter_witness:
  "add_file_data demo_backend ''Drive'' empty_registry demo_files 2
     = (\<lparr> sheets = [\<lparr> sheet_name = ''Drive_001'', sheet_id = ''id_Drive_001'',
                        rows_used = 2, max_rows = 900000 \<rparr>],
           current_sheet_index = 0, total_rows_used = 1 \<rparr>,
        Inr \<lparr> files_processed = 3, rows_added = 1, summary_sheets_used = [''Drive_001''],
              total_sheets = 1 \<rparr>)
   \<and> int (sum_list (map rows_used [\<lparr> sheet_name = ''Drive_001'', sheet_id = ''id_Drive_001'',
                        rows_used = 2, max_rows = 900000 \<rparr>]))
       = int (sum_list (map rows_used (sheets empty_registry))) + 1
             + (1 - int (length (sheets empty_registry)))"
  using add_file_data_counter[of demo_backend "''Drive''"
      "\<lparr> registry = empty_registry, total_added = 0, sheets_used = [] \<rparr>" 0 demo_files
      empty_registry demo_files 2]
    demo_add_file_data
  by simp

end
